theory Spec2Isabelle
  imports Complex_Main "HOL-Library.AList"
begin

section \<open>Python values, dictionaries and exceptions\<close>

text \<open>
  The component records that \<open>Interface.__init__\<close> receives are the output of a YAML
  load: dictionaries with string keys whose values are \<open>None\<close>, integers, floats,
  strings and lists. A Python \<open>dict\<close> keeps its keys in insertion order, so a dictionary
  is an association list read with \<open>map_of\<close> and written with \<open>AList.update\<close>, which
  overwrites a key in place and appends a new key at the end, as \<open>d[k] = v\<close> does.

  A Python float is represented by the rational number it denotes (\<open>PFloat\<close>). The
  product of the percentage pass is rounded to the nearest binary double, as the
  multiplication of an integer by a float does (\<open>double_round\<close> below). The grid pass
  only halves an integer and adds integers to the half, which is exact on doubles for
  every pixel size, and is computed on the rationals.
\<close>

datatype pyval =
    PNone
  | PInt int
  | PFloat rat
  | PStr string
  | PList "pyval list"
  | PTuple "pyval list"

datatype py_error =
    TypeError
  | ValueError
  | KeyError
  | AttributeError
  | ZeroDivisionError
  | IndexError
  | OverflowError
  | UnboundLocalError
  | UndefinedComponentType

type_synonym pydict = "(string \<times> pyval) list"

type_synonym style_table = "(string \<times> pydict) list"

definition has_str_key :: "string \<Rightarrow> (string \<times> 'v) list \<Rightarrow> bool" where
  "has_str_key k d = (map_of d k \<noteq> None)"

section \<open>Style classes: \<open>Interface.__parse_style_classes\<close>\<close>

text \<open>
  The inner loop, shared by the single-class and the multiple-class branch:
  \<^verbatim>\<open>
  for attr, value in self._style_classes[s].items():
      if attr not in component:
          component[attr] = value
  \<close>
\<close>

fun apply_style_class :: "pydict \<Rightarrow> pydict \<Rightarrow> pydict" where
  "apply_style_class [] component = component"
| "apply_style_class ((attr, val) # items) component =
     apply_style_class items
       (if has_str_key attr component then component else AList.update attr val component)"

text \<open>
  \<open>len(component["style"])\<close> and the iteration \<open>for style in component["style"]\<close>: a list
  or tuple yields its elements, a string its characters as one-character strings, and
  \<open>None\<close>, an integer or a float raise \<open>TypeError\<close> at \<open>len\<close>.
\<close>

fun py_iter :: "pyval \<Rightarrow> py_error + pyval list" where
  "py_iter (PList xs) = Inr xs"
| "py_iter (PTuple xs) = Inr xs"
| "py_iter (PStr s) = Inr (map (\<lambda>c. PStr [c]) s)"
| "py_iter _ = Inl TypeError"

text \<open>
  \<open>hash(v)\<close> succeeds on every value except a list and a tuple that holds one.
\<close>

fun hashable :: "pyval \<Rightarrow> bool" where
  "hashable (PList xs) = False"
| "hashable (PTuple xs) = list_all hashable xs"
| "hashable _ = True"

text \<open>
  The outer loop over the listed classes. \<open>style in self._style_classes\<close> hashes
  \<open>style\<close>: an unhashable value raises \<open>TypeError\<close>; any other value that is not a
  string is simply not a key of the dictionary of classes.
\<close>

fun apply_style_list :: "style_table \<Rightarrow> pyval list \<Rightarrow> pydict \<Rightarrow> py_error + pydict" where
  "apply_style_list classes [] component = Inr component"
| "apply_style_list classes (PStr s # rest) component =
     (case map_of classes s of
        Some cls \<Rightarrow> apply_style_list classes rest (apply_style_class cls component)
      | None \<Rightarrow> apply_style_list classes rest component)"
| "apply_style_list classes (v # rest) component =
     (if hashable v then apply_style_list classes rest component else Inl TypeError)"

definition parse_style_classes :: "style_table option \<Rightarrow> pydict \<Rightarrow> py_error + pydict" where
  "parse_style_classes style_classes component =
     (case (map_of component ''style'', style_classes) of
        (Some s, Some classes) \<Rightarrow>
          (case (case s of PStr name \<Rightarrow> map_of classes name | _ \<Rightarrow> None) of
             Some cls \<Rightarrow> Inr (apply_style_class cls component)
           | None \<Rightarrow>
              (case py_iter s of
                 Inl e \<Rightarrow> Inl e
               | Inr names \<Rightarrow>
                   if length names = 0 then Inr component
                   else apply_style_list classes names component))
      | _ \<Rightarrow> Inr component)"

text \<open>
  The priority rule in the words of the specification: the value a class list gives to an
  attribute is the one declared by the earliest listed known class that declares it.
\<close>

fun first_declared :: "style_table \<Rightarrow> pyval list \<Rightarrow> string \<Rightarrow> pyval option" where
  "first_declared classes [] attr = None"
| "first_declared classes (PStr s # rest) attr =
     (case map_of classes s of
        Some cls \<Rightarrow>
          (case map_of cls attr of
             Some v \<Rightarrow> Some v
           | None \<Rightarrow> first_declared classes rest attr)
      | None \<Rightarrow> first_declared classes rest attr)"
| "first_declared classes (_ # rest) attr = first_declared classes rest attr"

definition resolved :: "pydict \<Rightarrow> pyval option \<Rightarrow> string \<Rightarrow> pyval option" where
  "resolved component from_classes attr =
     (case map_of component attr of Some v \<Rightarrow> Some v | None \<Rightarrow> from_classes)"


section \<open>Percentages: \<open>Interface.__parse_percentage_values\<close>\<close>

text \<open>
  \<open>int(f)\<close> on a float discards the fractional part: it truncates towards zero.
\<close>

definition py_int_of_float :: "rat \<Rightarrow> int" where
  "py_int_of_float r = (if 0 \<le> r then \<lfloor>r\<rfloor> else \<lceil>r\<rceil>)"

subsection \<open>Binary floating point\<close>

text \<open>
  The product \<open>width * percent_to_float(w)\<close> is a product of an integer and a float:
  Python converts the integer to a double and multiplies in IEEE 754 binary64
  arithmetic, rounding to nearest with ties to even. \<open>pow2 k\<close> is the power of two with
  the integer exponent \<open>k\<close>.
\<close>

definition pow2 :: "int \<Rightarrow> rat" where
  "pow2 k = (if 0 \<le> k then 2 ^ nat k else 1 / 2 ^ nat (- k))"

text \<open>
  The binary exponent of a positive number \<open>x\<close>: the \<open>e\<close> with \<open>2^e \<le> x < 2^(e+1)\<close>,
  found by stepping up from 0 when \<open>x \<ge> 1\<close> and down from 0 otherwise. The search is
  cut off after 1100 steps, beyond the exponent range of a double: a number that large
  overflows, and for a number that small the spacing of the doubles no longer depends on
  the exponent.
\<close>

function exponent_up :: "int \<Rightarrow> rat \<Rightarrow> int \<Rightarrow> int" where
  "exponent_up fuel x e =
     (if 0 < fuel \<and> pow2 (e + 1) \<le> x then exponent_up (fuel - 1) x (e + 1) else e)"
  by pat_completeness auto
termination
  by (relation "measure (\<lambda>(fuel, x, e). nat fuel)") auto

function exponent_down :: "int \<Rightarrow> rat \<Rightarrow> int \<Rightarrow> int" where
  "exponent_down fuel x e =
     (if 0 < fuel \<and> x < pow2 e then exponent_down (fuel - 1) x (e - 1) else e)"
  by pat_completeness auto
termination
  by (relation "measure (\<lambda>(fuel, x, e). nat fuel)") auto

definition binary_exponent :: "rat \<Rightarrow> int" where
  "binary_exponent x = (if 1 \<le> x then exponent_up 1100 x 0 else exponent_down 1100 x 0)"

text \<open>Rounding to the nearest integer, a tie going to the even neighbour.\<close>

definition round_half_even :: "rat \<Rightarrow> int" where
  "round_half_even r =
     (let f = \<lfloor>r\<rfloor>; d = r - of_int f
      in if d < 1 / 2 then f else if 1 / 2 < d then f + 1 else if even f then f else f + 1)"

text \<open>
  The double nearest to \<open>x\<close>: a double with binary exponent \<open>e\<close> is a multiple of
  \<open>2^(e-52)\<close> (53 significant bits), and of \<open>2^(-1074)\<close> in the subnormal range. The
  result is not bounded above here; the callers test it against \<open>2^1024\<close>.
\<close>

definition double_round :: "rat \<Rightarrow> rat" where
  "double_round x =
     (if x = 0 then 0
      else (let u = pow2 (max (binary_exponent \<bar>x\<bar> - 52) (- 1074))
            in of_int (round_half_even (x / u)) * u))"

text \<open>
  \<open>int(width * f)\<close> for an integer \<open>width\<close> and a finite float \<open>f\<close>. The conversion of an
  integer too large for a double raises \<open>OverflowError\<close>; a product that overflows is
  infinite, and \<open>int\<close> of an infinite float raises \<open>OverflowError\<close> as well.
\<close>

definition py_float_of_int :: "int \<Rightarrow> py_error + rat" where
  "py_float_of_int n =
     (let a = double_round (of_int n) in if pow2 1024 \<le> \<bar>a\<bar> then Inl OverflowError else Inr a)"

definition int_of_product :: "int \<Rightarrow> rat \<Rightarrow> py_error + int" where
  "int_of_product width f =
     (case py_float_of_int width of
        Inl e \<Rightarrow> Inl e
      | Inr a \<Rightarrow>
          (let p = double_round (a * f)
           in if pow2 1024 \<le> \<bar>p\<bar> then Inl OverflowError else Inr (py_int_of_float p)))"

subsection \<open>The pass\<close>

text \<open>
  One of the four blocks of the method, for the attribute \<open>key\<close> and the base dimension
  \<open>base\<close> (\<open>None\<close> when the grid cell size was not computed):
  \<^verbatim>\<open>
  if "width" in component and type(w := component["width"]) is str:
      if "%" in w:
          component["width"] = int(width * percent_to_float(w))
  \<close>
  \<open>percent_to_float\<close> of \<open>pyinterfacer.util\<close> is imported by \<open>interface.py\<close> but is not
  among the source files: it is the parameter \<open>percent_to_float\<close>, which gives for a
  string either the exception it raises or the finite float it returns. The call is
  evaluated before the product, whose left operand \<open>None\<close> raises \<open>TypeError\<close>.
\<close>

definition resolve_percentage ::
  "(string \<Rightarrow> py_error + rat) \<Rightarrow> string \<Rightarrow> int option \<Rightarrow> pydict \<Rightarrow> py_error + pydict" where
  "resolve_percentage percent_to_float key base component =
     (case map_of component key of
        Some (PStr w) \<Rightarrow>
          if CHR ''%'' \<in> set w then
            (case percent_to_float w of
               Inl e \<Rightarrow> Inl e
             | Inr f \<Rightarrow>
                (case base of
                   None \<Rightarrow> Inl TypeError
                 | Some b \<Rightarrow>
                    (case int_of_product b f of
                       Inl e \<Rightarrow> Inl e
                     | Inr v \<Rightarrow> Inr (AList.update key (PInt v) component))))
          else Inr component
      | _ \<Rightarrow> Inr component)"

definition parse_percentage_values ::
  "(string \<Rightarrow> py_error + rat) \<Rightarrow> int \<times> int \<Rightarrow> pydict \<Rightarrow> int option \<Rightarrow> int option
     \<Rightarrow> py_error + pydict" where
  "parse_percentage_values percent_to_float size_px component gw gh =
     (let width = (if has_str_key ''grid_cell'' component then gw else Some (fst size_px));
          height = (if has_str_key ''grid_cell'' component then gh else Some (snd size_px))
      in case resolve_percentage percent_to_float ''width'' width component of
           Inl e \<Rightarrow> Inl e
         | Inr c1 \<Rightarrow>
            (case resolve_percentage percent_to_float ''height'' height c1 of
               Inl e \<Rightarrow> Inl e
             | Inr c2 \<Rightarrow>
                (case resolve_percentage percent_to_float ''x'' width c2 of
                   Inl e \<Rightarrow> Inl e
                 | Inr c3 \<Rightarrow> resolve_percentage percent_to_float ''y'' height c3)))"

text \<open>
  The base dimension the method uses for an attribute: the width for \<open>width\<close> and \<open>x\<close>,
  the height for \<open>height\<close> and \<open>y\<close>; of the grid cell when the component has a
  \<open>grid_cell\<close> key, of the interface otherwise.
\<close>

definition percentage_base ::
  "string \<Rightarrow> int \<times> int \<Rightarrow> pydict \<Rightarrow> int option \<Rightarrow> int option \<Rightarrow> int option" where
  "percentage_base key sz component gw gh =
     (if key = ''width'' \<or> key = ''x''
      then (if has_str_key ''grid_cell'' component then gw else Some (fst sz))
      else (if has_str_key ''grid_cell'' component then gh else Some (snd sz)))"


declare exponent_up.simps [simp del]

declare exponent_down.simps [simp del]

section \<open>Grid placement: \<open>Interface.__parse_grid_values\<close>\<close>

text \<open>
  The position of the cell centre on one axis, \<open>int((index * cell) + (cell / 2))\<close>, where
  \<open>index\<close> is the column (or row) and \<open>/\<close> is true division.
\<close>

definition cell_center :: "rat \<Rightarrow> int \<Rightarrow> int" where
  "cell_center index cell = py_int_of_float ((index * of_int cell) + (of_int cell / 2))"

text \<open>
  \<open>component["grid_cell"] // columns\<close> and \<open>component["grid_cell"] % columns\<close>: floor
  division and its remainder, on an integer or a float index. A missing \<open>columns\<close>
  (\<open>None\<close>) or an index of another type raises \<open>TypeError\<close>, a zero divisor
  \<open>ZeroDivisionError\<close>. The pair returned is (row, column).
\<close>

definition grid_row_column :: "pyval \<Rightarrow> int option \<Rightarrow> py_error + (rat \<times> rat)" where
  "grid_row_column grid_cell columns =
     (case columns of
        None \<Rightarrow> Inl TypeError
      | Some c \<Rightarrow>
         (case grid_cell of
            PInt g \<Rightarrow>
              if c = 0 then Inl ZeroDivisionError
              else Inr (of_int (g div c), of_int (g mod c))
          | PFloat g \<Rightarrow>
              if c = 0 then Inl ZeroDivisionError
              else Inr (of_int \<lfloor>g / of_int c\<rfloor>, g - of_int c * of_int \<lfloor>g / of_int c\<rfloor>)
          | _ \<Rightarrow> Inl TypeError))"

text \<open>
  \<^verbatim>\<open>
  if "width" not in component:
      component["width"] = gw
  elif component["width"] == "auto":
      component["width"] = None
  \<close>
\<close>

definition default_dimension :: "string \<Rightarrow> int \<Rightarrow> pydict \<Rightarrow> pydict" where
  "default_dimension key cell component =
     (case map_of component key of
        None \<Rightarrow> AList.update key (PInt cell) component
      | Some v \<Rightarrow>
          if v = PStr ''auto'' then AList.update key PNone component else component)"

definition parse_grid_values ::
  "string \<Rightarrow> pydict \<Rightarrow> int option \<Rightarrow> int option \<Rightarrow> int option \<Rightarrow> py_error + pydict" where
  "parse_grid_values display component gw gh columns =
     (if display \<noteq> ''grid'' then Inr component
      else
        (case map_of component ''grid_cell'' of
           None \<Rightarrow> Inr component
         | Some grid_cell \<Rightarrow>
            (case grid_row_column grid_cell columns of
               Inl e \<Rightarrow> Inl e
             | Inr (row, column) \<Rightarrow>
                (case (gw, gh) of
                   (Some w, Some h) \<Rightarrow>
                     Inr (default_dimension ''height'' h
                           (default_dimension ''width'' w
                             (AList.update ''y'' (PInt (cell_center row h))
                               (AList.update ''x'' (PInt (cell_center column w)) component))))
                 | _ \<Rightarrow> Inl TypeError))))"

text \<open>
  The centre of a cell as the specification writes it, \<open>index*cell + cell/2\<close>, over the
  rationals.
\<close>

definition spec_cell_center :: "int \<Rightarrow> int \<Rightarrow> rat" where
  "spec_cell_center index cell = of_int index * of_int cell + of_int cell / 2"

text \<open>
  The cell size computed at the head of \<open>_parse_components\<close>:
  \<^verbatim>\<open>
  if self.display == "grid":
      grid_width = self.size[0] // self.columns
      grid_height = self.size[1] // self.rows
  else:
      grid_width = grid_height = None
  \<close>
\<close>

definition py_floordiv :: "int \<Rightarrow> int option \<Rightarrow> py_error + int" where
  "py_floordiv a b =
     (case b of
        None \<Rightarrow> Inl TypeError
      | Some d \<Rightarrow> if d = 0 then Inl ZeroDivisionError else Inr (a div d))"

definition grid_cell_size ::
  "string \<Rightarrow> int \<times> int \<Rightarrow> int option \<Rightarrow> int option \<Rightarrow> py_error + (int option \<times> int option)" where
  "grid_cell_size display size_px rows columns =
     (if display = ''grid'' then
        (case py_floordiv (fst size_px) columns of
           Inl e \<Rightarrow> Inl e
         | Inr grid_width \<Rightarrow>
            (case py_floordiv (snd size_px) rows of
               Inl e \<Rightarrow> Inl e
             | Inr grid_height \<Rightarrow> Inr (Some grid_width, Some grid_height)))
      else Inr (None, None))"

section \<open>Components, dispatch groups and the interface state\<close>

text \<open>
  The \<open>subtype\<close> attribute of a component is either a member of the enumeration
  \<open>DefaultComponentTypes\<close>, identified here by its \<open>value\<close>, or any other value (a
  string, or \<open>None\<close>).
\<close>

datatype subtype = DefaultComponentType string | OtherSubtype "string option"

text \<open>
  A component object. \<open>comp_oid\<close> is the identity of the object (Python's \<open>id(c)\<close>);
  the other fields are the attributes the interface reads: \<open>c.id\<close>, \<open>c.type\<close>,
  \<open>c.subtype\<close>, and the keyword arguments it was built from.
\<close>

record component =
  comp_oid :: nat
  comp_id :: string
  comp_type :: string
  comp_subtype :: subtype
  comp_interface :: string
  comp_attrs :: pydict

text \<open>
  A group class, by its capabilities: what \<open>isinstance\<close> against \<open>ClickableGroup\<close>,
  \<open>HoverableGroup\<close> and \<open>InputGroup\<close> answers for its instances. A dispatch group is an
  instance of a group class together with its member sprites in insertion order.
  \<open>ComponentGroup\<close> is the most generic class; calling a class (\<open>new_group\<close>) builds an
  empty group.
\<close>

record group_class =
  is_clickable_group :: bool
  is_hoverable_group :: bool
  is_input_group :: bool

record sprite_group = group_class +
  sprites :: "component list"

definition ComponentGroup :: group_class where
  "ComponentGroup =
     \<lparr>is_clickable_group = False, is_hoverable_group = False, is_input_group = False\<rparr>"

definition new_group :: "group_class \<Rightarrow> sprite_group" where
  "new_group cls =
     \<lparr>is_clickable_group = is_clickable_group cls,
      is_hoverable_group = is_hoverable_group cls,
      is_input_group = is_input_group cls,
      sprites = []\<rparr>"

text \<open>
  Modelled from the spec: the group classes of \<open>pyinterfacer.groups\<close> are not among the
  source files. \<open>add(component)\<close> makes the component a member; a group is a collection
  without duplicates, so adding a member again changes nothing.
\<close>

definition group_add :: "component \<Rightarrow> sprite_group \<Rightarrow> sprite_group" where
  "group_add c g = (if c \<in> set (sprites g) then g else g\<lparr>sprites := sprites g @ [c]\<rparr>)"

definition sprite_list_add :: "component \<Rightarrow> component list \<Rightarrow> component list" where
  "sprite_list_add c cs = (if c \<in> set cs then cs else cs @ [c])"

record image =
  img_id :: nat
  img_size :: "int \<times> int"

type_synonym color = "int \<times> int \<times> int \<times> int"

datatype binding =
    ComponentBinding "component \<times> string" "nat \<times> string"
  | CallbackBinding "component \<times> string" nat

record binding_manager =
  registry :: "(nat \<times> binding) list"
  next_uuid :: nat

record interface =
  name :: string
  display :: string
  rows :: "int option"
  columns :: "int option"
  parent :: "string option"
  size_px :: "int \<times> int"
  bindings :: binding_manager
  bg_color :: color
  bg_image :: "image option"
  main_group :: "component list"
  subgroups :: "nat list"
  component_type_groups :: "(string \<times> sprite_group) list"
  components :: "component list"
  style_classes :: "style_table option"

text \<open>
  What the interface takes from outside: the image loader, scaler and colour parser of
  the rendering library, the helper \<open>percent_to_float\<close> of \<open>pyinterfacer.util\<close>, and the
  two process-wide tables of \<open>_ConversionMapping\<close>. The
  component table gives, for a registered lower-case type name, the subtype of the
  components its constructor builds; the group table gives the registered group class.
\<close>

record environment =
  image_load :: "string \<Rightarrow> image option"
  transform_scale :: "image \<Rightarrow> int \<times> int \<Rightarrow> image option"
  pygame_Color :: "pyval \<Rightarrow> color option"
  percent_to_float :: "string \<Rightarrow> py_error + rat"
  COMPONENT_CONVERSION_TABLE :: "string \<Rightarrow> subtype option"
  GROUP_CONVERSION_TABLE :: "string \<Rightarrow> group_class option"

section \<open>Background: \<open>Interface._parse_background\<close>\<close>

text \<open>
  The body of the \<open>try\<close> block. \<open>os.path.abspath\<close> accepts a string only; the load, the
  conversion or the scaling may each raise. \<open>None\<close> stands for any exception, since the
  bare \<open>except\<close> catches them all.
\<close>

definition load_background :: "environment \<Rightarrow> int \<times> int \<Rightarrow> pyval \<Rightarrow> image option" where
  "load_background env sz bg =
     (case bg of
        PStr path \<Rightarrow>
          (case image_load env path of
             None \<Rightarrow> None
           | Some img \<Rightarrow>
               if sz \<noteq> img_size img then transform_scale env img sz else Some img)
      | _ \<Rightarrow> None)"

definition parse_background :: "environment \<Rightarrow> interface \<Rightarrow> pyval \<Rightarrow> py_error + interface" where
  "parse_background env self bg =
     (case load_background env (size_px self) bg of
        Some img \<Rightarrow> Inr (self\<lparr>bg_image := Some img\<rparr>)
      | None \<Rightarrow>
          if bg \<noteq> PNone then
            (case pygame_Color env bg of
               Some c \<Rightarrow> Inr (self\<lparr>bg_color := c\<rparr>)
             | None \<Rightarrow> Inl ValueError)
          else Inr self)"

section \<open>Component parsing: \<open>Interface._parse_components\<close>\<close>

definition lower_char :: "char \<Rightarrow> char" where
  "lower_char c =
     (let n = (of_char c :: nat) in if 65 \<le> n \<and> n \<le> 90 then char_of (n + 32) else c)"

definition lower :: "string \<Rightarrow> string" where
  "lower s = map lower_char s"

definition dict_get :: "pydict \<Rightarrow> string \<Rightarrow> pyval" where
  "dict_get d k = (case map_of d k of Some v \<Rightarrow> v | None \<Rightarrow> PNone)"

text \<open>
  Modelled from the spec: \<open>_ConversionMapping.convert_component\<close> and the component
  constructors are not among the source files. A registered factory produces a component
  from the attribute mapping, with the \<open>id\<close> and the declared \<open>type\<close> it was given;
  construction fails when no constructor is registered for the type name. Each call
  builds a new object, whose identity \<open>oid\<close> the caller supplies. Identifiers are
  strings (\<open>component_mapping\<close> is a \<open>Dict[str, _Component]\<close>); a record whose \<open>id\<close>
  or \<open>type\<close> is not a string is rejected with \<open>TypeError\<close>.
\<close>

definition convert_component ::
  "environment \<Rightarrow> nat \<Rightarrow> string \<Rightarrow> string \<Rightarrow> pydict \<Rightarrow> py_error + component" where
  "convert_component env oid type_name interface_name kwargs =
     (case COMPONENT_CONVERSION_TABLE env type_name of
        None \<Rightarrow> Inl UndefinedComponentType
      | Some st \<Rightarrow>
         (case (map_of kwargs ''id'', map_of kwargs ''type'') of
            (Some (PStr i), Some (PStr t)) \<Rightarrow>
              Inr \<lparr>comp_oid = oid, comp_id = i, comp_type = t, comp_subtype = st,
                   comp_interface = interface_name, comp_attrs = kwargs\<rparr>
          | _ \<Rightarrow> Inl TypeError))"

definition subtype_key :: "subtype \<Rightarrow> string option" where
  "subtype_key st = (case st of DefaultComponentType v \<Rightarrow> Some v | OtherSubtype s \<Rightarrow> s)"

definition handle_new_type_group :: "environment \<Rightarrow> interface \<Rightarrow> component \<Rightarrow> interface" where
  "handle_new_type_group env self c =
     (let subtype = subtype_key (comp_subtype c);
          group_cls =
            (case GROUP_CONVERSION_TABLE env (comp_type c) of
               Some cls \<Rightarrow> cls
             | None \<Rightarrow>
                (case (case subtype of Some k \<Rightarrow> GROUP_CONVERSION_TABLE env k | None \<Rightarrow> None) of
                   Some cls \<Rightarrow> cls
                 | None \<Rightarrow> ComponentGroup))
      in self\<lparr>component_type_groups :=
                AList.update (comp_type c) (new_group group_cls) (component_type_groups self)\<rparr>)"

text \<open>
  The default id and the \<open>pos\<close> and \<open>size\<close> pairs:
  \<^verbatim>\<open>
  if "id" not in component:
      component["id"] = "_"
  component["pos"] = (component.get("x"), component.get("y"))
  component["size"] = (component.get("width"), component.get("height"))
  \<close>
\<close>

definition set_id_pos_size :: "pydict \<Rightarrow> pydict" where
  "set_id_pos_size component =
     (let c1 = (if \<not> has_str_key ''id'' component
                then AList.update ''id'' (PStr ''_'') component else component);
          c2 = AList.update ''pos'' (PTuple [dict_get c1 ''x'', dict_get c1 ''y'']) c1
      in AList.update ''size'' (PTuple [dict_get c2 ''width'', dict_get c2 ''height'']) c2)"

text \<open>
  The part of the loop body that prepares the dictionary: the three resolution passes,
  then the default id and the two pairs.
\<close>

definition resolve_component ::
  "environment \<Rightarrow> interface \<Rightarrow> int option \<Rightarrow> int option \<Rightarrow> pydict \<Rightarrow> py_error + pydict" where
  "resolve_component env self grid_width grid_height component =
     (case parse_style_classes (style_classes self) component of
        Inl e \<Rightarrow> Inl e
      | Inr c1 \<Rightarrow>
         (case parse_percentage_values (percent_to_float env) (size_px self) c1
                 grid_width grid_height of
            Inl e \<Rightarrow> Inl e
          | Inr c2 \<Rightarrow>
             (case parse_grid_values (display self) c2 grid_width grid_height (columns self) of
                Inl e \<Rightarrow> Inl e
              | Inr c3 \<Rightarrow> Inr (set_id_pos_size c3))))"

text \<open>
  The rest of the loop body: the component is built, appended to \<open>_components\<close>, given a
  type group if its type has none yet, and added to its type group and to the main
  group. \<open>component["type"].lower()\<close> raises \<open>KeyError\<close> without a \<open>type\<close> key and
  \<open>AttributeError\<close> when the type is not a string. The call
  \<open>convert_component(type_=..., interface=self.name, **component)\<close> raises \<open>TypeError\<close>
  when the record has a key \<open>type_\<close> or \<open>interface\<close> of its own, which would pass a
  keyword argument twice.
\<close>

definition register_component :: "environment \<Rightarrow> interface \<Rightarrow> component \<Rightarrow> interface" where
  "register_component env self c =
     (let s1 = self\<lparr>components := components self @ [c]\<rparr>;
          s2 = (if \<not> has_str_key (comp_type c) (component_type_groups s1)
                then handle_new_type_group env s1 c else s1);
          s3 = (case map_of (component_type_groups s2) (comp_type c) of
                  Some g \<Rightarrow>
                    s2\<lparr>component_type_groups :=
                         AList.update (comp_type c) (group_add c g) (component_type_groups s2)\<rparr>
                | None \<Rightarrow> s2)
      in s3\<lparr>main_group := sprite_list_add c (main_group s3)\<rparr>)"

definition parse_component ::
  "environment \<Rightarrow> int option \<Rightarrow> int option \<Rightarrow> interface \<Rightarrow> pydict \<Rightarrow> py_error + interface" where
  "parse_component env grid_width grid_height self component =
     (case resolve_component env self grid_width grid_height component of
        Inl e \<Rightarrow> Inl e
      | Inr kwargs \<Rightarrow>
         (case map_of kwargs ''type'' of
            None \<Rightarrow> Inl KeyError
          | Some (PStr t) \<Rightarrow>
             if has_str_key ''type_'' kwargs \<or> has_str_key ''interface'' kwargs then Inl TypeError
             else
               (case convert_component env (length (components self)) (lower t) (name self)
                       kwargs of
                  Inl e \<Rightarrow> Inl e
                | Inr c \<Rightarrow> Inr (register_component env self c))
          | Some _ \<Rightarrow> Inl AttributeError))"

fun parse_components_loop ::
  "environment \<Rightarrow> int option \<Rightarrow> int option \<Rightarrow> interface \<Rightarrow> pydict list \<Rightarrow> py_error + interface" where
  "parse_components_loop env gw gh self [] = Inr self"
| "parse_components_loop env gw gh self (component # rest) =
     (case parse_component env gw gh self component of
        Inl e \<Rightarrow> Inl e
      | Inr self' \<Rightarrow> parse_components_loop env gw gh self' rest)"

definition parse_components :: "environment \<Rightarrow> interface \<Rightarrow> pydict list \<Rightarrow> py_error + interface" where
  "parse_components env self comps =
     (case grid_cell_size (display self) (size_px self) (rows self) (columns self) of
        Inl e \<Rightarrow> Inl e
      | Inr (grid_width, grid_height) \<Rightarrow>
          parse_components_loop env grid_width grid_height self comps)"

section \<open>Construction: \<open>Interface.__init__\<close>\<close>

definition new_interface ::
  "string \<Rightarrow> int \<times> int \<Rightarrow> string \<Rightarrow> int option \<Rightarrow> int option \<Rightarrow> string option
     \<Rightarrow> style_table option \<Rightarrow> interface" where
  "new_interface nm sz disp rws cols par styles =
     \<lparr>name = nm, display = disp, rows = rws, columns = cols, parent = par, size_px = sz,
      bindings = \<lparr>registry = [], next_uuid = 0\<rparr>,
      bg_color = (0, 0, 0, 0), bg_image = None,
      main_group = [], subgroups = [], component_type_groups = [], components = [],
      style_classes = styles\<rparr>"

definition Interface ::
  "environment \<Rightarrow> string \<Rightarrow> pyval \<Rightarrow> int \<times> int \<Rightarrow> pydict list \<Rightarrow> string
     \<Rightarrow> int option \<Rightarrow> int option \<Rightarrow> string option \<Rightarrow> style_table option
     \<Rightarrow> py_error + interface" where
  "Interface env nm background sz comps disp rws cols par styles =
     (case parse_background env (new_interface nm sz disp rws cols par styles) background of
        Inl e \<Rightarrow> Inl e
      | Inr self \<Rightarrow> parse_components env self comps)"

section \<open>Lookup: \<open>component_mapping\<close> and \<open>__getitem__\<close>\<close>

text \<open>
  \<^verbatim>\<open>return {c.id: c for c in self._components if c.id != "_"}\<close>
  The comprehension stores the components in list order, a later component replacing
  an earlier one under the same key.
\<close>

fun mapping_loop :: "component list \<Rightarrow> (string \<times> component) list \<Rightarrow> (string \<times> component) list" where
  "mapping_loop [] m = m"
| "mapping_loop (c # cs) m =
     mapping_loop cs (if comp_id c \<noteq> ''_'' then AList.update (comp_id c) c m else m)"

definition component_mapping :: "interface \<Rightarrow> (string \<times> component) list" where
  "component_mapping self = mapping_loop (components self) []"

text \<open>
  \<open>list.index(x)\<close>: the position of the first element equal to \<open>x\<close>, and \<open>ValueError\<close>
  when there is none. The test \<open>eq\<close> is the equality of the elements with \<open>x\<close>.
\<close>

fun list_index :: "('a \<Rightarrow> bool) \<Rightarrow> 'a list \<Rightarrow> py_error + nat" where
  "list_index eq [] = Inl ValueError"
| "list_index eq (x # xs) =
     (if eq x then Inr 0
      else (case list_index eq xs of Inl e \<Rightarrow> Inl e | Inr i \<Rightarrow> Inr (Suc i)))"

text \<open>
  \<open>Interface.__getitem__\<close>. The equality of a component with the key (the \<open>__eq__\<close> of
  the component class, which is not among the source files) is the parameter
  \<open>component_eq\<close>. The result \<open>Inr None\<close> is the method returning \<open>None\<close>.
\<close>

definition getitem ::
  "(component \<Rightarrow> pyval \<Rightarrow> bool) \<Rightarrow> interface \<Rightarrow> pyval \<Rightarrow> py_error + component option" where
  "getitem component_eq self key =
     (case list_index (\<lambda>c. component_eq c key) (components self) of
        Inl e \<Rightarrow> Inl e
      | Inr idx \<Rightarrow>
          if int idx \<noteq> - 1 then
            (if idx < length (components self) then Inr (Some (components self ! idx))
             else Inl IndexError)
          else Inr None)"

section \<open>The frame: \<open>update\<close>, \<open>handle_hover\<close>, \<open>draw\<close>, \<open>handle\<close>\<close>

text \<open>
  The methods of a frame change the interface only through calls into its
  collaborators (the sprite groups, the binding manager, the overlay managers and the
  target surface). Each method is modelled by the sequence of those calls, in the order
  it makes them.
\<close>

datatype call =
    GroupUpdate
  | SubgroupUpdate nat
  | BindingsHandle
  | OverlayUpdateInterfaces
  | GroupHandleHover string
  | SurfaceBlit image
  | SurfaceFill color
  | UnderlayerRender
  | GroupDraw
  | SubgroupDraw nat
  | OverlayRender

definition update :: "interface \<Rightarrow> call list" where
  "update self =
     [GroupUpdate]
     @ (if length (subgroups self) > 0 then map SubgroupUpdate (subgroups self) else [])
     @ [BindingsHandle]
     @ [OverlayUpdateInterfaces]"

fun handle_hover_loop :: "(string \<times> sprite_group) list \<Rightarrow> call list" where
  "handle_hover_loop [] = []"
| "handle_hover_loop ((type_name, g) # rest) =
     (if is_hoverable_group g then GroupHandleHover type_name # handle_hover_loop rest
      else handle_hover_loop rest)"

definition handle_hover :: "interface \<Rightarrow> call list" where
  "handle_hover self = handle_hover_loop (component_type_groups self)"

definition draw :: "interface \<Rightarrow> call list" where
  "draw self =
     (case bg_image self of
        Some img \<Rightarrow> [SurfaceBlit img]
      | None \<Rightarrow> if display self \<noteq> ''overlay'' then [SurfaceFill (bg_color self)] else [])
     @ [UnderlayerRender]
     @ [GroupDraw]
     @ (if length (subgroups self) > 0 then map SubgroupDraw (subgroups self) else [])
     @ [OverlayRender]"

definition handle :: "interface \<Rightarrow> call list" where
  "handle self = update self @ handle_hover self @ draw self"

text \<open>The stage of the frame a call belongs to, and the layer a drawing call paints.\<close>

fun frame_stage :: "call \<Rightarrow> nat" where
  "frame_stage GroupUpdate = 0"
| "frame_stage (SubgroupUpdate g) = 0"
| "frame_stage BindingsHandle = 1"
| "frame_stage OverlayUpdateInterfaces = 2"
| "frame_stage (GroupHandleHover t) = 3"
| "frame_stage _ = 4"

fun is_component_update :: "call \<Rightarrow> bool" where
  "is_component_update GroupUpdate = True"
| "is_component_update (SubgroupUpdate g) = True"
| "is_component_update _ = False"

fun is_hover :: "call \<Rightarrow> bool" where
  "is_hover (GroupHandleHover t) = True"
| "is_hover _ = False"

fun is_background :: "call \<Rightarrow> bool" where
  "is_background (SurfaceBlit img) = True"
| "is_background (SurfaceFill c) = True"
| "is_background _ = False"

fun is_draw :: "call \<Rightarrow> bool" where
  "is_draw (SurfaceBlit img) = True"
| "is_draw (SurfaceFill c) = True"
| "is_draw UnderlayerRender = True"
| "is_draw GroupDraw = True"
| "is_draw (SubgroupDraw g) = True"
| "is_draw OverlayRender = True"
| "is_draw _ = False"

fun draw_layer :: "call \<Rightarrow> nat" where
  "draw_layer (SurfaceBlit img) = 0"
| "draw_layer (SurfaceFill c) = 0"
| "draw_layer UnderlayerRender = 1"
| "draw_layer GroupDraw = 2"
| "draw_layer (SubgroupDraw g) = 2"
| "draw_layer OverlayRender = 3"
| "draw_layer _ = 4"

text \<open>
  In a sequence of calls, every call satisfying \<open>P\<close> comes before every call
  satisfying \<open>Q\<close>.
\<close>

fun all_before :: "(call \<Rightarrow> bool) \<Rightarrow> (call \<Rightarrow> bool) \<Rightarrow> call list \<Rightarrow> bool" where
  "all_before P Q [] = True"
| "all_before P Q (c # cs) = ((Q c \<longrightarrow> list_all (\<lambda>d. \<not> P d) cs) \<and> all_before P Q cs)"

section \<open>Bindings: \<open>Interface.create_binding\<close>\<close>

text \<open>
  The third argument of \<open>create_binding\<close>, an arbitrary object: its identity, whether it
  is an instance of \<open>_HandledComponent\<close>, and whether it is callable.
\<close>

record py_object =
  obj_id :: nat
  is_handled_component :: bool
  is_callable :: bool

text \<open>
  Modelled from the spec: \<open>_BindingManager\<close> is not among the source files.
  \<open>register(binding) -> id\<close> stores the binding under a new identifier and returns the
  identifier.
\<close>

definition register :: "binding_manager \<Rightarrow> binding \<Rightarrow> nat \<times> binding_manager" where
  "register m b =
     (next_uuid m, \<lparr>registry = registry m @ [(next_uuid m, b)], next_uuid = Suc (next_uuid m)\<rparr>)"

text \<open>
  The local variable \<open>b\<close> after the \<open>if\<close>/\<open>elif\<close>: \<open>None\<close> when neither branch ran and the
  name is unbound.
\<close>

definition build_binding ::
  "component \<Rightarrow> string \<Rightarrow> py_object \<Rightarrow> string option \<Rightarrow> binding option" where
  "build_binding c1 a1 c2 a2 =
     (if is_handled_component c2 \<and> a2 \<noteq> None then
        Some (ComponentBinding (c1, a1) (obj_id c2, the a2))
      else if is_callable c2 then Some (CallbackBinding (c1, a1) (obj_id c2))
      else None)"

definition create_binding ::
  "interface \<Rightarrow> component \<Rightarrow> string \<Rightarrow> py_object \<Rightarrow> string option
     \<Rightarrow> (py_error + nat) \<times> interface" where
  "create_binding self c1 a1 c2 a2 =
     (case build_binding c1 a1 c2 a2 of
        None \<Rightarrow> (Inl UnboundLocalError, self)
      | Some b \<Rightarrow>
          (case register (bindings self) b of
             (uuid, m) \<Rightarrow> (Inr uuid, self\<lparr>bindings := m\<rparr>)))"

section \<open>The membership invariant\<close>

text \<open>
  The invariant of the component list and the groups that the parsing loop maintains:
  the components are numbered by their identities in the order of their construction;
  every component is a member of the main group and of the group stored under its type;
  and the group stored under a type holds components of that type only.
\<close>

definition group_invariant :: "interface \<Rightarrow> bool" where
  "group_invariant self =
     (map comp_oid (components self) = [0..<length (components self)]
      \<and> (\<forall>c\<in>set (components self).
            c \<in> set (main_group self)
            \<and> (\<exists>g. map_of (component_type_groups self) (comp_type c) = Some g
                     \<and> c \<in> set (sprites g)))
      \<and> (\<forall>t g. map_of (component_type_groups self) t = Some g
            \<longrightarrow> (\<forall>c\<in>set (sprites g). comp_type c = t)))"

section \<open>A concrete environment\<close>

text \<open>
  An environment for running the model on concrete inputs: one image file, two colour
  names, the component types \<open>text\<close> and \<open>button\<close>, and a clickable, hoverable group
  class registered for buttons. Its \<open>percent_to_float\<close> reads a string of decimal digits
  followed by the percent sign as that number divided by one hundred, the quotient
  being rounded to a double as the division of two integers is; it rejects any other
  string with \<open>ValueError\<close>.
\<close>

fun digit_value :: "char \<Rightarrow> nat option" where
  "digit_value c =
     (let n = (of_char c :: nat) in if 48 \<le> n \<and> n \<le> 57 then Some (n - 48) else None)"

fun decimal_value :: "nat \<Rightarrow> string \<Rightarrow> nat option" where
  "decimal_value acc [] = Some acc"
| "decimal_value acc (c # cs) =
     (case digit_value c of
        None \<Rightarrow> None
      | Some d \<Rightarrow> decimal_value (10 * acc + d) cs)"

definition example_percent_to_float :: "string \<Rightarrow> py_error + rat" where
  "example_percent_to_float p =
     (if p \<noteq> [] \<and> last p = CHR ''%'' \<and> butlast p \<noteq> [] then
        (case decimal_value 0 (butlast p) of
           Some n \<Rightarrow> Inr (double_round (of_nat n / 100))
         | None \<Rightarrow> Inl ValueError)
      else Inl ValueError)"

definition example_environment :: environment where
  "example_environment =
     \<lparr>image_load =
        (\<lambda>path. if path = ''bg.png'' then Some \<lparr>img_id = 1, img_size = (800, 600)\<rparr> else None),
      transform_scale =
        (\<lambda>img sz. if 0 \<le> fst sz \<and> 0 \<le> snd sz then Some (img\<lparr>img_size := sz\<rparr>) else None),
      pygame_Color =
        (\<lambda>v. if v = PStr ''red'' then Some (255, 0, 0, 255)
             else if v = PStr ''black'' then Some (0, 0, 0, 255) else None),
      percent_to_float = example_percent_to_float,
      COMPONENT_CONVERSION_TABLE =
        (\<lambda>t. if t = ''text'' then Some (DefaultComponentType ''text'')
             else if t = ''button'' then Some (DefaultComponentType ''button'') else None),
      GROUP_CONVERSION_TABLE =
        (\<lambda>t. if t = ''button''
             then Some (ComponentGroup\<lparr>is_clickable_group := True, is_hoverable_group := True\<rparr>)
             else None)\<rparr>"

text \<open>
  The interface that the construction builds, in that environment, from the three
  component records \<open>{type: text}\<close>, \<open>{type: button, id: start}\<close> and \<open>{type: text}\<close> on a
  black background of 800 by 600 pixels: two texts without an id and one button.
\<close>

definition example_text :: "nat \<Rightarrow> component" where
  "example_text oid =
     \<lparr>comp_oid = oid, comp_id = ''_'', comp_type = ''text'',
      comp_subtype = DefaultComponentType ''text'', comp_interface = ''menu'',
      comp_attrs =
        [(''type'', PStr ''text''), (''id'', PStr ''_''),
         (''pos'', PTuple [PNone, PNone]), (''size'', PTuple [PNone, PNone])]\<rparr>"

definition example_button :: component where
  "example_button =
     \<lparr>comp_oid = 1, comp_id = ''start'', comp_type = ''button'',
      comp_subtype = DefaultComponentType ''button'', comp_interface = ''menu'',
      comp_attrs =
        [(''type'', PStr ''button''), (''id'', PStr ''start''),
         (''pos'', PTuple [PNone, PNone]), (''size'', PTuple [PNone, PNone])]\<rparr>"

definition example_menu :: interface where
  "example_menu =
     \<lparr>name = ''menu'', display = ''default'', rows = None, columns = None, parent = None,
      size_px = (800, 600),
      bindings = \<lparr>registry = [], next_uuid = 0\<rparr>,
      bg_color = (0, 0, 0, 255), bg_image = None,
      main_group = [example_text 0, example_button, example_text 2],
      subgroups = [],
      component_type_groups =
        [(''text'',
          \<lparr>is_clickable_group = False, is_hoverable_group = False, is_input_group = False,
           sprites = [example_text 0, example_text 2]\<rparr>),
         (''button'',
          \<lparr>is_clickable_group = True, is_hoverable_group = True, is_input_group = False,
           sprites = [example_button]\<rparr>)],
      components = [example_text 0, example_button, example_text 2],
      style_classes = None\<rparr>"

section \<open>Properties of the style merge\<close>

lemma map_of_apply_style_class:
  "map_of (apply_style_class cls component) attr =
     resolved component (map_of cls attr) attr"
proof (induction cls component rule: apply_style_class.induct)
  case (1 component)
  then show ?case by (simp add: resolved_def split: option.splits)
next
  case (2 a v items component)
  then show ?case
    by (auto simp: resolved_def has_str_key_def update_conv' split: option.splits)
qed

lemma map_of_apply_style_list:
  "apply_style_list classes names component = Inr component' \<Longrightarrow>
   map_of component' attr = resolved component (first_declared classes names attr) attr"
proof (induction classes names component rule: apply_style_list.induct)
  case (1 classes component)
  then show ?case by (simp add: resolved_def split: option.splits)
next
  case (2 classes s rest component)
  then show ?case
    by (auto simp: resolved_def map_of_apply_style_class split: option.splits)
qed (auto split: if_splits)

lemma apply_style_list_returns:
  "list_all hashable names \<Longrightarrow> \<exists>component'. apply_style_list classes names component = Inr component'"
  by (induction classes names component rule: apply_style_list.induct) (auto split: option.splits)

lemma parse_style_classes_returns:
  assumes "map_of component ''style'' = Some (PList names)" and "list_all hashable names"
  shows "\<exists>component'. parse_style_classes styles component = Inr component'"
  using assms apply_style_list_returns[OF assms(2)]
  by (auto simp: parse_style_classes_def split: option.splits)

text \<open>
  Claim C1. Whenever the style merge of a component returns, an attribute that the
  component sets itself keeps its value, whatever the style classes declare; so the
  merge assigns a class attribute only where the component had none. For an attribute
  the component does not set, a single known class gives its own value, and a list of
  classes gives the value of the earliest listed known class that declares the
  attribute: for the styles \<open>[A, B]\<close> both declaring \<open>color\<close>, the value of \<open>A\<close>.
\<close>

theorem style_merge_priority:
  assumes "parse_style_classes (Some classes) component = Inr component'"
  shows "(\<forall>v. map_of component attr = Some v \<longrightarrow> map_of component' attr = Some v) \<and>
         (map_of component attr = None \<longrightarrow>
            (\<forall>s cls. map_of component ''style'' = Some (PStr s) \<and> map_of classes s = Some cls
                \<longrightarrow> map_of component' attr = map_of cls attr) \<and>
            (\<forall>names. map_of component ''style'' = Some (PList names)
                \<longrightarrow> map_of component' attr = first_declared classes names attr))"
  using assms
  by (auto simp: parse_style_classes_def resolved_def map_of_apply_style_class
      dest!: map_of_apply_style_list[where attr=attr]
      split: option.splits pyval.splits sum.splits if_splits)

theorem style_merge_priority_witness:
  "parse_style_classes
      (Some [(''A'', [(''color'', PStr ''red''), (''width'', PInt 10)]),
             (''B'', [(''color'', PStr ''blue''), (''font'', PStr ''mono'')])])
      [(''type'', PStr ''text''), (''style'', PList [PStr ''A'', PStr ''B'']), (''width'', PInt 99)]
    = Inr [(''type'', PStr ''text''), (''style'', PList [PStr ''A'', PStr ''B'']),
           (''width'', PInt 99), (''color'', PStr ''red''), (''font'', PStr ''mono'')]
   \<and> first_declared
        [(''A'', [(''color'', PStr ''red''), (''width'', PInt 10)]),
         (''B'', [(''color'', PStr ''blue''), (''font'', PStr ''mono'')])]
        [PStr ''A'', PStr ''B''] ''color'' = Some (PStr ''red'')"
proof -
  let ?classes = "[(''A'', [(''color'', PStr ''red''), (''width'', PInt 10)]),
             (''B'', [(''color'', PStr ''blue''), (''font'', PStr ''mono'')])]"
  let ?c = "[(''type'', PStr ''text''), (''style'', PList [PStr ''A'', PStr ''B'']), (''width'', PInt 99)]"
  let ?r = "[(''type'', PStr ''text''), (''style'', PList [PStr ''A'', PStr ''B'']),
           (''width'', PInt 99), (''color'', PStr ''red''), (''font'', PStr ''mono'')]"
  have run: "parse_style_classes (Some ?classes) ?c = Inr ?r"
    by (simp add: parse_style_classes_def has_str_key_def)
  from style_merge_priority[OF run, of "''color''"]
  have "map_of ?r ''color'' = first_declared ?classes [PStr ''A'', PStr ''B''] ''color''"
    by simp
  with run show ?thesis by simp
qed

section \<open>Properties of \<open>create_binding\<close>\<close>

text \<open>
  Claim C9. \<open>create_binding\<close> returns a binding identifier, and registers the binding it
  built, exactly when \<open>c2\<close> is a handled component and \<open>a2\<close> is given, or \<open>c2\<close> is
  callable. In every other case (a component with \<open>a2\<close> left as \<open>None\<close>, for one) no
  branch binds \<open>b\<close>, the call fails with \<open>UnboundLocalError\<close>, and the interface, its
  binding registry included, is unchanged.
\<close>

theorem create_binding_outcome:
  "((is_handled_component c2 \<and> a2 \<noteq> None) \<or> is_callable c2 \<longrightarrow>
      (\<exists>uuid b. create_binding self c1 a1 c2 a2
                   = (Inr uuid, self\<lparr>bindings := snd (register (bindings self) b)\<rparr>)
               \<and> build_binding c1 a1 c2 a2 = Some b
               \<and> (uuid, b) \<in> set (registry (bindings (snd (create_binding self c1 a1 c2 a2))))))
   \<and> (\<not> ((is_handled_component c2 \<and> a2 \<noteq> None) \<or> is_callable c2) \<longrightarrow>
        create_binding self c1 a1 c2 a2 = (Inl UnboundLocalError, self))"
  by (auto simp: create_binding_def build_binding_def register_def)

theorem create_binding_outcome_witness:
  "create_binding (new_interface ''menu'' (800, 600) ''default'' None None None None)
      \<lparr>comp_oid = 0, comp_id = ''title'', comp_type = ''text'', comp_subtype = OtherSubtype None,
       comp_interface = ''menu'', comp_attrs = []\<rparr>
      ''text''
      \<lparr>obj_id = 1, is_handled_component = True, is_callable = False\<rparr>
      None
    = (Inl UnboundLocalError, new_interface ''menu'' (800, 600) ''default'' None None None None)
   \<and> fst (create_binding (new_interface ''menu'' (800, 600) ''default'' None None None None)
      \<lparr>comp_oid = 0, comp_id = ''title'', comp_type = ''text'', comp_subtype = OtherSubtype None,
       comp_interface = ''menu'', comp_attrs = []\<rparr>
      ''text''
      \<lparr>obj_id = 1, is_handled_component = True, is_callable = False\<rparr>
      (Some ''value'')) = Inr 0"
  using create_binding_outcome
      [of "\<lparr>obj_id = 1, is_handled_component = True, is_callable = False\<rparr>" None
          "new_interface ''menu'' (800, 600) ''default'' None None None None"
          "\<lparr>comp_oid = 0, comp_id = ''title'', comp_type = ''text'', comp_subtype = OtherSubtype None,
       comp_interface = ''menu'', comp_attrs = []\<rparr>" "''text''"]
    create_binding_outcome
      [of "\<lparr>obj_id = 1, is_handled_component = True, is_callable = False\<rparr>" "Some ''value''"
          "new_interface ''menu'' (800, 600) ''default'' None None None None"
          "\<lparr>comp_oid = 0, comp_id = ''title'', comp_type = ''text'', comp_subtype = OtherSubtype None,
       comp_interface = ''menu'', comp_attrs = []\<rparr>" "''text''"]
  by (auto simp: new_interface_def register_def)

section \<open>Properties of \<open>__getitem__\<close>\<close>

lemma list_index_Inr:
  "list_index eq xs = Inr i \<Longrightarrow> i < length xs \<and> eq (xs ! i) \<and> (\<forall>j<i. \<not> eq (xs ! j))"
proof (induction xs arbitrary: i)
  case Nil
  then show ?case by simp
next
  case (Cons x xs)
  then show ?case
    by (auto split: if_splits sum.splits simp: nth_Cons less_Suc_eq_0_disj split: nat.splits)
qed

lemma list_index_Inl:
  "(list_index eq xs = Inl e) = (e = ValueError \<and> (\<forall>x\<in>set xs. \<not> eq x))"
  by (induction xs) (auto split: sum.splits)

text \<open>
  Claim C10. \<open>__getitem__\<close> never returns \<open>None\<close>. When no component of \<open>_components\<close>
  equals the key, \<open>list.index\<close> raises and the lookup fails with \<open>ValueError\<close>; when
  some component equals the key, the lookup returns such a component. The index is
  never \<open>-1\<close>, so the branch returning \<open>None\<close> is dead.
\<close>

theorem getitem_never_None:
  "getitem component_eq self key \<noteq> Inr None \<and>
   ((\<forall>c\<in>set (components self). \<not> component_eq c key) \<longrightarrow>
      getitem component_eq self key = Inl ValueError) \<and>
   ((\<exists>c\<in>set (components self). component_eq c key) \<longrightarrow>
      (\<exists>c\<in>set (components self). component_eq c key \<and> getitem component_eq self key = Inr (Some c)))"
proof -
  show ?thesis
  proof (cases "list_index (\<lambda>c. component_eq c key) (components self)")
    case (Inl e)
    from Inl have "e = ValueError" "\<forall>c\<in>set (components self). \<not> component_eq c key"
      by (simp_all add: list_index_Inl)
    with Inl show ?thesis by (simp add: getitem_def)
  next
    case (Inr i)
    from list_index_Inr[OF Inr] have "i < length (components self)" "component_eq (components self ! i) key"
      by auto
    moreover have "\<not> (\<forall>c\<in>set (components self). \<not> component_eq c key)"
      using calculation nth_mem by blast
    ultimately show ?thesis using Inr by (auto simp: getitem_def)
  qed
qed

theorem getitem_never_None_witness:
  "getitem (\<lambda>c k. k = PStr (comp_id c))
        ((new_interface ''menu'' (800, 600) ''default'' None None None None)
          \<lparr>components := [\<lparr>comp_oid = 0, comp_id = ''title'', comp_type = ''text'',
               comp_subtype = OtherSubtype None, comp_interface = ''menu'', comp_attrs = []\<rparr>]\<rparr>)
        (PStr ''missing'') = Inl ValueError"
  using getitem_never_None
      [of "\<lambda>c k. k = PStr (comp_id c)"
          "(new_interface ''menu'' (800, 600) ''default'' None None None None)
          \<lparr>components := [\<lparr>comp_oid = 0, comp_id = ''title'', comp_type = ''text'',
               comp_subtype = OtherSubtype None, comp_interface = ''menu'', comp_attrs = []\<rparr>]\<rparr>"
          "PStr ''missing''"]
  by (simp add: new_interface_def)

section \<open>Properties of the frame\<close>

lemma all_before_sorted:
  assumes "sorted (map f cs)" and "\<And>c d. P c \<Longrightarrow> Q d \<Longrightarrow> f c < (f d :: nat)"
  shows "all_before P Q cs"
  using assms(1)
proof (induction cs)
  case Nil
  then show ?case by simp
next
  case (Cons c cs)
  have "\<not> P d" if "Q c" and "d \<in> set cs" for d
  proof
    assume "P d"
    then have "f d < f c" using assms(2) that(1) by blast
    moreover have "f c \<le> f d" using Cons.prems that(2) by auto
    ultimately show False by simp
  qed
  with Cons show ?case by (auto simp: list_all_iff)
qed

lemma frame_stage_update: "map frame_stage (update self) = replicate (Suc (length (subgroups self))) 0 @ [1, 2]"
  by (simp add: update_def map_replicate_const comp_def)

lemma frame_stage_handle_hover_loop: "map frame_stage (handle_hover_loop gs) = replicate (length (handle_hover_loop gs)) 3"
  by (induction gs rule: handle_hover_loop.induct) auto

lemma frame_stage_draw: "map frame_stage (draw self) = replicate (length (draw self)) 4"
  by (auto simp: draw_def map_replicate_const comp_def replicate_append_same split: option.splits)

lemma sorted_frame_stage_handle: "sorted (map frame_stage (handle self))"
  by (auto simp: handle_def handle_hover_def frame_stage_update frame_stage_handle_hover_loop
      frame_stage_draw sorted_append)

lemma handle_hover_loop_complete:
  "(t, g) \<in> set gs \<Longrightarrow> is_hoverable_group g \<Longrightarrow> GroupHandleHover t \<in> set (handle_hover_loop gs)"
  by (induction gs rule: handle_hover_loop.induct) auto

lemma stage_is_component_update: "is_component_update c = (frame_stage c = 0)"
  by (cases c) auto

lemma stage_is_hover: "is_hover c = (frame_stage c = 3)"
  by (cases c) auto

lemma stage_is_draw: "is_draw c = (frame_stage c = 4)"
  by (cases c) auto

text \<open>
  Claim C4. In every call of \<open>handle\<close> the calls are made stage by stage: the updates of
  the main group and of every subgroup, then the evaluation of the bindings, then (after
  the update of the overlay interfaces) the hover dispatch to every hoverable type group,
  then the drawing calls. So every component update precedes the evaluation of the
  bindings, the bindings are evaluated once and before any hover dispatch, every hover
  dispatch precedes every drawing call, and no drawing call precedes an update: the
  drawing calls of \<open>draw\<close> are the tail of the frame.
\<close>

theorem handle_frame_order:
  "sorted (map frame_stage (handle self))
   \<and> all_before is_component_update (\<lambda>c. c = BindingsHandle) (handle self)
   \<and> all_before (\<lambda>c. c = BindingsHandle) is_hover (handle self)
   \<and> all_before is_hover is_draw (handle self)
   \<and> all_before is_component_update is_draw (handle self)
   \<and> GroupUpdate \<in> set (handle self)
   \<and> (\<forall>g\<in>set (subgroups self). SubgroupUpdate g \<in> set (handle self))
   \<and> count_list (handle self) BindingsHandle = 1
   \<and> (\<forall>(t, g)\<in>set (component_type_groups self).
         is_hoverable_group g \<longrightarrow> GroupHandleHover t \<in> set (handle self))
   \<and> (\<exists>before. handle self = before @ draw self \<and> list_all (\<lambda>c. \<not> is_draw c) before)"
proof -
  have s: "sorted (map frame_stage (handle self))" by (rule sorted_frame_stage_handle)
  have 1: "all_before is_component_update (\<lambda>c. c = BindingsHandle) (handle self)"
    by (rule all_before_sorted[OF s]) (simp add: stage_is_component_update)
  have 2: "all_before (\<lambda>c. c = BindingsHandle) is_hover (handle self)"
    by (rule all_before_sorted[OF s]) (simp add: stage_is_hover)
  have 3: "all_before is_hover is_draw (handle self)"
    by (rule all_before_sorted[OF s]) (simp add: stage_is_hover stage_is_draw)
  have 4: "all_before is_component_update is_draw (handle self)"
    by (rule all_before_sorted[OF s]) (simp add: stage_is_component_update stage_is_draw)
  have 5: "GroupUpdate \<in> set (handle self)"
    by (simp add: handle_def update_def)
  have 6: "\<forall>g\<in>set (subgroups self). SubgroupUpdate g \<in> set (handle self)"
    by (auto simp: handle_def update_def)
  have nh: "BindingsHandle \<notin> set (handle_hover_loop gs)" for gs
    by (induction gs rule: handle_hover_loop.induct) auto
  have cm: "count_list (map SubgroupUpdate xs) BindingsHandle = 0" for xs
    by (induction xs) auto
  have cd: "count_list (map SubgroupDraw xs) BindingsHandle = 0" for xs
    by (induction xs) auto
  have 7: "count_list (handle self) BindingsHandle = 1"
    using nh[of "component_type_groups self"]
    by (auto simp: handle_def update_def handle_hover_def draw_def cm cd count_list_0_iff
        split: option.splits)
  have 8: "\<forall>(t, g)\<in>set (component_type_groups self).
         is_hoverable_group g \<longrightarrow> GroupHandleHover t \<in> set (handle self)"
    by (auto simp: handle_def handle_hover_def handle_hover_loop_complete)
  have "list_all (\<lambda>c. \<not> is_draw c) (update self @ handle_hover self)"
  proof -
    have "frame_stage c \<noteq> 4" if "c \<in> set (update self @ handle_hover self)" for c
    proof -
      from that have "frame_stage c \<in> set (map frame_stage (update self)) \<union> set (map frame_stage (handle_hover self))"
        by auto
      then show ?thesis
        unfolding frame_stage_update handle_hover_def frame_stage_handle_hover_loop by auto
    qed
    then show ?thesis by (simp add: list_all_iff stage_is_draw)
  qed
  then have 9: "\<exists>before. handle self = before @ draw self \<and> list_all (\<lambda>c. \<not> is_draw c) before"
    by (intro exI[of _ "update self @ handle_hover self"]) (simp add: handle_def)
  from s 1 2 3 4 5 6 7 8 9 show ?thesis by blast
qed

theorem handle_frame_order_witness:
  "handle ((new_interface ''menu'' (800, 600) ''default'' None None None None)
        \<lparr>subgroups := [5],
         component_type_groups :=
           [(''button'', new_group (ComponentGroup\<lparr>is_hoverable_group := True\<rparr>)),
            (''text'', new_group ComponentGroup)]\<rparr>)
     = [GroupUpdate, SubgroupUpdate 5, BindingsHandle, OverlayUpdateInterfaces,
        GroupHandleHover ''button'',
        SurfaceFill (0, 0, 0, 0), UnderlayerRender, GroupDraw, SubgroupDraw 5, OverlayRender]
   \<and> sorted (map frame_stage
        (handle ((new_interface ''menu'' (800, 600) ''default'' None None None None)
          \<lparr>subgroups := [5],
           component_type_groups :=
             [(''button'', new_group (ComponentGroup\<lparr>is_hoverable_group := True\<rparr>)),
            (''text'', new_group ComponentGroup)]\<rparr>)))
   \<and> all_before is_component_update is_draw
        (handle ((new_interface ''menu'' (800, 600) ''default'' None None None None)
          \<lparr>subgroups := [5],
           component_type_groups :=
             [(''button'', new_group (ComponentGroup\<lparr>is_hoverable_group := True\<rparr>)),
            (''text'', new_group ComponentGroup)]\<rparr>))"
  using handle_frame_order
      [of "(new_interface ''menu'' (800, 600) ''default'' None None None None)
        \<lparr>subgroups := [5],
         component_type_groups :=
           [(''button'', new_group (ComponentGroup\<lparr>is_hoverable_group := True\<rparr>)),
            (''text'', new_group ComponentGroup)]\<rparr>"]
  by (simp add: handle_def update_def handle_hover_def draw_def new_interface_def
      ComponentGroup_def new_group_def)

lemma sorted_draw_layer: "sorted (map draw_layer (draw self))"
  by (auto simp: draw_def sorted_append comp_def map_replicate_const split: option.splits)

text \<open>
  Claim C5, as amended. Every call of \<open>draw\<close> paints in layer order: the background
  first when there is a background pass, then the underlayer, then the main group
  followed by the subgroups, then the top overlay. The background pass is the blit of
  the background image when one is set, and otherwise the colour fill, which is made
  only when the display mode is not \<open>overlay\<close>: an overlay interface without a
  background image draws no background at all.
\<close>

theorem draw_compositing_order:
  "sorted (map draw_layer (draw self))
   \<and> list_all is_draw (draw self)
   \<and> draw self =
       (case bg_image self of
          Some img \<Rightarrow> [SurfaceBlit img]
        | None \<Rightarrow> if display self = ''overlay'' then [] else [SurfaceFill (bg_color self)])
       @ [UnderlayerRender, GroupDraw] @ map SubgroupDraw (subgroups self) @ [OverlayRender]
   \<and> all_before is_background (\<lambda>c. c = UnderlayerRender) (draw self)
   \<and> all_before (\<lambda>c. c = UnderlayerRender) (\<lambda>c. c = GroupDraw \<or> (\<exists>g. c = SubgroupDraw g)) (draw self)
   \<and> all_before (\<lambda>c. c = GroupDraw \<or> (\<exists>g. c = SubgroupDraw g)) (\<lambda>c. c = OverlayRender) (draw self)"
proof -
  have s: "sorted (map draw_layer (draw self))" by (rule sorted_draw_layer)
  have bg: "is_background c \<Longrightarrow> draw_layer c = 0" for c by (cases c) auto
  have 1: "all_before is_background (\<lambda>c. c = UnderlayerRender) (draw self)"
    by (rule all_before_sorted[OF s]) (simp add: bg)
  have 2: "all_before (\<lambda>c. c = UnderlayerRender) (\<lambda>c. c = GroupDraw \<or> (\<exists>g. c = SubgroupDraw g)) (draw self)"
    by (rule all_before_sorted[OF s]) auto
  have 3: "all_before (\<lambda>c. c = GroupDraw \<or> (\<exists>g. c = SubgroupDraw g)) (\<lambda>c. c = OverlayRender) (draw self)"
    by (rule all_before_sorted[OF s]) auto
  have 4: "list_all is_draw (draw self)"
    by (auto simp: draw_def list_all_iff split: option.splits)
  have 5: "draw self =
       (case bg_image self of
          Some img \<Rightarrow> [SurfaceBlit img]
        | None \<Rightarrow> if display self = ''overlay'' then [] else [SurfaceFill (bg_color self)])
       @ [UnderlayerRender, GroupDraw] @ map SubgroupDraw (subgroups self) @ [OverlayRender]"
    by (auto simp: draw_def split: option.splits)
  from s 1 2 3 4 5 show ?thesis by blast
qed

theorem draw_compositing_order_witness:
  "draw ((new_interface ''menu'' (800, 600) ''default'' None None None None)
        \<lparr>bg_image := Some \<lparr>img_id = 1, img_size = (800, 600)\<rparr>, subgroups := [5]\<rparr>)
     = [SurfaceBlit \<lparr>img_id = 1, img_size = (800, 600)\<rparr>, UnderlayerRender, GroupDraw,
        SubgroupDraw 5, OverlayRender]
   \<and> all_before is_background (\<lambda>c. c = UnderlayerRender)
        (draw ((new_interface ''menu'' (800, 600) ''default'' None None None None)
          \<lparr>bg_image := Some \<lparr>img_id = 1, img_size = (800, 600)\<rparr>, subgroups := [5]\<rparr>))"
  using draw_compositing_order
      [of "(new_interface ''menu'' (800, 600) ''default'' None None None None)
        \<lparr>bg_image := Some \<lparr>img_id = 1, img_size = (800, 600)\<rparr>, subgroups := [5]\<rparr>"]
  by (simp add: new_interface_def)

text \<open>
  The claim C5 as stated fails on an overlay interface without a background image: the
  first thing drawn is the underlayer, and no background is drawn.
\<close>

theorem draw_overlay_counterexample:
  "draw (new_interface ''popup'' (400, 300) ''overlay'' None None (Some ''menu'') None)
     = [UnderlayerRender, GroupDraw, OverlayRender]
   \<and> \<not> is_background (hd (draw (new_interface ''popup'' (400, 300) ''overlay'' None None (Some ''menu'') None)))"
  by (simp add: draw_def new_interface_def)

section \<open>Properties of the background\<close>

text \<open>
  Claim C7, as amended. When the background value cannot be loaded as an image, that
  failure is not an error. A value other than \<open>None\<close> is then read as a colour: a valid
  colour is stored as the fill colour, and an invalid one is the only way for the
  background parsing to raise. The value \<open>None\<close> is not read as a colour: nothing is
  stored and nothing is raised. At construction, where no image was set before, a
  background that falls back to a colour leaves no background image set.
\<close>

theorem parse_background_fallback:
  "(load_background env (size_px self) bg = None \<longrightarrow>
      (bg = PNone \<longrightarrow> parse_background env self bg = Inr self) \<and>
      (bg \<noteq> PNone \<longrightarrow>
         (\<forall>c. pygame_Color env bg = Some c \<longrightarrow>
                parse_background env self bg = Inr (self\<lparr>bg_color := c\<rparr>)) \<and>
         (pygame_Color env bg = None \<longrightarrow> parse_background env self bg = Inl ValueError)))
   \<and> (\<forall>e. parse_background env self bg = Inl e \<longrightarrow>
         load_background env (size_px self) bg = None \<and> bg \<noteq> PNone \<and> pygame_Color env bg = None)
   \<and> (\<forall>nm sz disp rws cols par styles self'.
         self = new_interface nm sz disp rws cols par styles \<and>
         load_background env (size_px self) bg = None \<and>
         parse_background env self bg = Inr self' \<longrightarrow> bg_image self' = None)"
  by (auto simp: parse_background_def new_interface_def split: option.splits if_splits)

theorem parse_background_fallback_witness:
  "load_background example_environment (800, 600) (PStr ''red'') = None
   \<and> parse_background example_environment
        (new_interface ''menu'' (800, 600) ''default'' None None None None) (PStr ''red'')
      = Inr ((new_interface ''menu'' (800, 600) ''default'' None None None None)
               \<lparr>bg_color := (255, 0, 0, 255)\<rparr>)
   \<and> parse_background example_environment
        (new_interface ''menu'' (800, 600) ''default'' None None None None) (PStr ''no such colour'')
      = Inl ValueError"
  using parse_background_fallback
      [of example_environment "new_interface ''menu'' (800, 600) ''default'' None None None None"
          "PStr ''red''"]
    parse_background_fallback
      [of example_environment "new_interface ''menu'' (800, 600) ''default'' None None None None"
          "PStr ''no such colour''"]
  by (simp add: load_background_def example_environment_def new_interface_def)

text \<open>
  The claim C7 as stated fails for the background \<open>None\<close>: it cannot be loaded as an
  image and it is not a colour, yet no error is raised and no colour is stored.
\<close>

theorem parse_background_None_counterexample:
  "load_background example_environment (800, 600) PNone = None
   \<and> pygame_Color example_environment PNone = None
   \<and> parse_background example_environment
        (new_interface ''menu'' (800, 600) ''default'' None None None None) PNone
      = Inr (new_interface ''menu'' (800, 600) ''default'' None None None None)
   \<and> bg_color (new_interface ''menu'' (800, 600) ''default'' None None None None) = (0, 0, 0, 0)"
  by (simp add: parse_background_def load_background_def example_environment_def new_interface_def)

text \<open>
  Through the setter, a colour assigned after an image background is stored as the fill
  colour, but the image stays in place.
\<close>

lemma background_setter_keeps_image:
  "parse_background example_environment
     ((new_interface ''menu'' (800, 600) ''default'' None None None None)
        \<lparr>bg_image := Some \<lparr>img_id = 1, img_size = (800, 600)\<rparr>\<rparr>) (PStr ''red'')
   = Inr ((new_interface ''menu'' (800, 600) ''default'' None None None None)
        \<lparr>bg_image := Some \<lparr>img_id = 1, img_size = (800, 600)\<rparr>, bg_color := (255, 0, 0, 255)\<rparr>)"
  by (simp add: parse_background_def load_background_def example_environment_def new_interface_def)

section \<open>Arithmetic helpers\<close>

lemma floor_rat_numeral:
  "\<lfloor>(numeral a :: rat) / numeral b\<rfloor> = numeral a div numeral b"
  using floor_divide_of_int_eq[of "numeral a" "numeral b", where ?'a = rat] by simp

section \<open>Properties of the grid resolution\<close>

lemma map_of_default_dimension:
  "map_of (default_dimension key cell component) k =
     (if k = key
      then (case map_of component key of
              None \<Rightarrow> Some (PInt cell)
            | Some v \<Rightarrow> if v = PStr ''auto'' then Some PNone else Some v)
      else map_of component k)"
  by (auto simp: default_dimension_def update_conv' split: option.splits)

lemma py_int_of_float_of_int: "py_int_of_float (of_int n) = n"
  by (simp add: py_int_of_float_def)

lemma cell_center_spec: "cell_center (of_int k) w = py_int_of_float (spec_cell_center k w)"
  by (simp add: cell_center_def spec_cell_center_def)

lemma cell_center_even:
  assumes "even w"
  shows "of_int (cell_center (of_int k) w) = spec_cell_center k w"
proof -
  from assms obtain m where m: "w = 2 * m" by (auto elim: evenE)
  have "spec_cell_center k w = of_int (k * w + m)"
    by (simp add: spec_cell_center_def m)
  then show ?thesis
    by (simp only: cell_center_spec py_int_of_float_of_int)
qed

lemma cell_center_nonneg:
  assumes "0 \<le> k * w" and "0 \<le> w"
  shows "cell_center (of_int k) w = k * w + w div 2"
proof -
  have nn: "(0::rat) \<le> of_int (k * w) + of_int w / 2"
    using assms by (metis add_nonneg_nonneg divide_nonneg_pos of_int_0_le_iff zero_less_numeral)
  have "\<lfloor>(of_int (k * w) :: rat) + of_int w / 2\<rfloor> = k * w + \<lfloor>(of_int w :: rat) / of_int 2\<rfloor>"
    by (simp only: int_add_floor of_int_numeral)
  also have "\<dots> = k * w + w div 2"
    by (simp only: floor_divide_of_int_eq)
  finally show ?thesis
    using nn by (simp add: cell_center_def py_int_of_float_def)
qed

lemma grid_cell_size_grid:
  "c \<noteq> 0 \<Longrightarrow> r \<noteq> 0 \<Longrightarrow>
   grid_cell_size ''grid'' sz (Some r) (Some c) = Inr (Some (fst sz div c), Some (snd sz div r))"
  by (simp add: grid_cell_size_def py_floordiv_def)

text \<open>
  Claim C3, as amended. On a grid interface, for a component with an integer
  \<open>grid_cell\<close> and a number of columns other than zero, the grid pass returns with
  \<open>row = grid_cell // columns\<close> and \<open>column = grid_cell % columns\<close>, and sets
  \<open>x = int(column*cell_w + cell_w/2)\<close> and \<open>y = int(row*cell_h + cell_h/2)\<close>: the centre of
  the cell truncated towards zero to an integer, which is the exact centre when the
  cell size is even (\<open>cell_center_even\<close>). A width (or height) that is unset becomes the
  cell width (or height); the value \<open>"auto"\<close> becomes \<open>None\<close>, which leaves the size to the
  component type; any other value is kept. With three columns, cell 4 is at row 1,
  column 1.
\<close>

theorem grid_resolution:
  assumes "map_of component ''grid_cell'' = Some (PInt g)" and "c \<noteq> 0"
  shows "\<exists>component'.
           parse_grid_values ''grid'' component (Some w) (Some h) (Some c) = Inr component'
         \<and> map_of component' ''x'' = Some (PInt (py_int_of_float (spec_cell_center (g mod c) w)))
         \<and> map_of component' ''y'' = Some (PInt (py_int_of_float (spec_cell_center (g div c) h)))
         \<and> map_of component' ''width'' =
             (case map_of component ''width'' of
                None \<Rightarrow> Some (PInt w)
              | Some v \<Rightarrow> if v = PStr ''auto'' then Some PNone else Some v)
         \<and> map_of component' ''height'' =
             (case map_of component ''height'' of
                None \<Rightarrow> Some (PInt h)
              | Some v \<Rightarrow> if v = PStr ''auto'' then Some PNone else Some v)"
  using assms
  by (simp add: parse_grid_values_def grid_row_column_def map_of_default_dimension update_conv'
      cell_center_spec)

theorem grid_resolution_witness:
  "parse_grid_values ''grid''
      [(''type'', PStr ''button''), (''grid_cell'', PInt 4), (''width'', PStr ''auto'')]
      (Some 40) (Some 30) (Some 3)
    = Inr [(''type'', PStr ''button''), (''grid_cell'', PInt 4), (''width'', PNone),
           (''x'', PInt 60), (''y'', PInt 45), (''height'', PInt 30)]
   \<and> (4::int) div 3 = 1 \<and> (4::int) mod 3 = 1
   \<and> py_int_of_float (spec_cell_center (4 mod 3) 40) = 60
   \<and> py_int_of_float (spec_cell_center (4 div 3) 30) = 45"
proof -
  have run: "parse_grid_values ''grid''
      [(''type'', PStr ''button''), (''grid_cell'', PInt 4), (''width'', PStr ''auto'')]
      (Some 40) (Some 30) (Some 3)
    = Inr [(''type'', PStr ''button''), (''grid_cell'', PInt 4), (''width'', PNone),
           (''x'', PInt 60), (''y'', PInt 45), (''height'', PInt 30)]"
    by (simp add: parse_grid_values_def grid_row_column_def default_dimension_def
        cell_center_def py_int_of_float_def)
  from grid_resolution[of "[(''type'', PStr ''button''), (''grid_cell'', PInt 4), (''width'', PStr ''auto'')]"
        4 3 40 30]
  have "py_int_of_float (spec_cell_center (4 mod 3) 40) = 60
      \<and> py_int_of_float (spec_cell_center (4 div 3) 30) = 45"
    unfolding run by simp
  with run show ?thesis by simp
qed

text \<open>
  The claim C3 as stated fails for a cell of odd size: on a 100 by 100 interface with
  three rows and three columns the cell is 33 pixels wide, the centre of column 1 is
  49.5, and the code sets \<open>x = 49\<close>.
\<close>

theorem grid_center_truncation_counterexample:
  "parse_grid_values ''grid''
      [(''type'', PStr ''button''), (''grid_cell'', PInt 4)] (Some 33) (Some 33) (Some 3)
    = Inr [(''type'', PStr ''button''), (''grid_cell'', PInt 4),
           (''x'', PInt 49), (''y'', PInt 49), (''width'', PInt 33), (''height'', PInt 33)]
   \<and> spec_cell_center (4 mod 3) 33 = 99 / 2
   \<and> (of_int 49 :: rat) \<noteq> 99 / 2"
  by (simp add: parse_grid_values_def grid_row_column_def default_dimension_def
      cell_center_def py_int_of_float_def spec_cell_center_def floor_rat_numeral)

section \<open>Properties of the percentage resolution\<close>

lemma resolve_percentage_other:
  "resolve_percentage ptf key base component = Inr component' \<Longrightarrow> k \<noteq> key \<Longrightarrow>
   map_of component' k = map_of component k"
  by (auto simp: resolve_percentage_def update_conv'
      split: option.splits pyval.splits if_splits sum.splits)



lemma parse_percentage_values_steps:
  assumes "parse_percentage_values ptf sz component gw gh = Inr component'"
  shows "\<exists>c1 c2 c3.
           resolve_percentage ptf ''width'' (percentage_base ''width'' sz component gw gh)
             component = Inr c1
         \<and> resolve_percentage ptf ''height'' (percentage_base ''height'' sz component gw gh)
             c1 = Inr c2
         \<and> resolve_percentage ptf ''x'' (percentage_base ''x'' sz component gw gh) c2 = Inr c3
         \<and> resolve_percentage ptf ''y'' (percentage_base ''y'' sz component gw gh) c3
             = Inr component'"
  using assms
  by (cases "has_str_key ''grid_cell'' component")
    (simp_all add: parse_percentage_values_def percentage_base_def Let_def split: sum.splits)

lemma parse_percentage_values_other:
  assumes "parse_percentage_values ptf sz component gw gh = Inr component'"
    and "k \<noteq> ''width''" and "k \<noteq> ''height''" and "k \<noteq> ''x''" and "k \<noteq> ''y''"
  shows "map_of component' k = map_of component k"
proof -
  from parse_percentage_values_steps[OF assms(1)] obtain c1 c2 c3 where
    s1: "resolve_percentage ptf ''width'' (percentage_base ''width'' sz component gw gh)
             component = Inr c1" and
    s2: "resolve_percentage ptf ''height'' (percentage_base ''height'' sz component gw gh)
             c1 = Inr c2" and
    s3: "resolve_percentage ptf ''x'' (percentage_base ''x'' sz component gw gh) c2 = Inr c3" and
    s4: "resolve_percentage ptf ''y'' (percentage_base ''y'' sz component gw gh) c3
             = Inr component'"
    by blast
  from resolve_percentage_other[OF s1 assms(2)] resolve_percentage_other[OF s2 assms(3)]
    resolve_percentage_other[OF s3 assms(4)] resolve_percentage_other[OF s4 assms(5)]
  show ?thesis by simp
qed



lemma parse_grid_values_other:
  assumes "parse_grid_values disp component gw gh cols = Inr component'"
    and "k \<noteq> ''width''" and "k \<noteq> ''height''" and "k \<noteq> ''x''" and "k \<noteq> ''y''"
  shows "map_of component' k = map_of component k"
  using assms
  by (auto simp: parse_grid_values_def map_of_default_dimension update_conv'
      split: if_splits option.splits sum.splits prod.splits)



lemma map_of_set_id_pos_size:
  "k \<noteq> ''pos'' \<Longrightarrow> k \<noteq> ''size'' \<Longrightarrow>
   map_of (set_id_pos_size component) k =
     (if k = ''id''
      then (case map_of component ''id'' of None \<Rightarrow> Some (PStr ''_'') | Some v \<Rightarrow> Some v)
      else map_of component k)"
  by (simp add: set_id_pos_size_def Let_def update_conv' has_str_key_def split: option.splits)

lemma resolve_component_Inr:
  assumes "resolve_component env self gw gh component = Inr kwargs"
  shows "\<exists>c1 c2 c3.
           parse_style_classes (style_classes self) component = Inr c1
         \<and> parse_percentage_values (percent_to_float env) (size_px self) c1 gw gh = Inr c2
         \<and> parse_grid_values (display self) c2 gw gh (columns self) = Inr c3
         \<and> kwargs = set_id_pos_size c3"
  using assms
  by (simp add: resolve_component_def split: sum.splits)


lemmas float_defs =
  double_round_def binary_exponent_def exponent_up.simps exponent_down.simps pow2_def
  round_half_even_def py_float_of_int_def int_of_product_def py_int_of_float_def Let_def
  floor_rat_numeral

lemma example_percent_50: "example_percent_to_float ''50%'' = Inr (1 / 2)"
  by (simp add: example_percent_to_float_def float_defs)







lemma product_800_29: "int_of_product 800 (5224175567749775 / 18014398509481984) = Inr 231"
  by (simp add: float_defs)

lemmas resolve_defs =
  resolve_component_def parse_style_classes_def parse_percentage_values_def
  resolve_percentage_def parse_grid_values_def grid_row_column_def default_dimension_def
  cell_center_def set_id_pos_size_def has_str_key_def dict_get_def new_interface_def
  example_environment_def Let_def



text \<open>
  On an interface that is not a grid the cell size is \<open>None\<close>, and a percentage on a
  component with a \<open>grid_cell\<close> key raises \<open>TypeError\<close>: the resolution does not return.
\<close>

lemma percentage_grid_cell_without_grid:
  "resolve_component example_environment
      (new_interface ''menu'' (800, 600) ''default'' None None None None) None None
      [(''type'', PStr ''text''), (''grid_cell'', PInt 0), (''width'', PStr ''50%'')]
     = Inl TypeError"
  by (simp add: resolve_defs example_percent_50)

section \<open>Properties of the component groups\<close>

lemma group_invariant_new_interface:
  "group_invariant (new_interface nm sz disp rws cols par styles)"
  by (simp add: group_invariant_def new_interface_def)

lemma group_invariant_numbered:
  "group_invariant self \<Longrightarrow> map comp_oid (components self) = [0..<length (components self)]"
  unfolding group_invariant_def by (rule conjunct1)

lemma group_invariant_member:
  assumes "group_invariant self" and "c \<in> set (components self)"
  shows "c \<in> set (main_group self)
       \<and> (\<exists>g. map_of (component_type_groups self) (comp_type c) = Some g \<and> c \<in> set (sprites g))"
proof -
  from assms(1) have "\<forall>c\<in>set (components self).
            c \<in> set (main_group self)
            \<and> (\<exists>g. map_of (component_type_groups self) (comp_type c) = Some g
                     \<and> c \<in> set (sprites g))"
    unfolding group_invariant_def by (rule conjunct2[THEN conjunct1])
  from this assms(2) show ?thesis by (rule bspec)
qed

lemma group_invariant_only_type:
  assumes "group_invariant self" and "map_of (component_type_groups self) t = Some g"
    and "c \<in> set (sprites g)"
  shows "comp_type c = t"
proof -
  from assms(1) have "\<forall>t g. map_of (component_type_groups self) t = Some g
            \<longrightarrow> (\<forall>c\<in>set (sprites g). comp_type c = t)"
    unfolding group_invariant_def by (rule conjunct2[THEN conjunct2])
  then have "\<forall>g. map_of (component_type_groups self) t = Some g
            \<longrightarrow> (\<forall>c\<in>set (sprites g). comp_type c = t)"
    by (rule spec)
  then have "map_of (component_type_groups self) t = Some g
            \<longrightarrow> (\<forall>c\<in>set (sprites g). comp_type c = t)"
    by (rule spec)
  from this assms(2) have "\<forall>c\<in>set (sprites g). comp_type c = t" by (rule mp)
  from this assms(3) show ?thesis by (rule bspec)
qed

lemma group_invariantI:
  assumes "map comp_oid (components self) = [0..<length (components self)]"
    and "\<And>c. c \<in> set (components self) \<Longrightarrow> c \<in> set (main_group self)"
    and "\<And>c. c \<in> set (components self) \<Longrightarrow>
           \<exists>g. map_of (component_type_groups self) (comp_type c) = Some g \<and> c \<in> set (sprites g)"
    and "\<And>t g c. map_of (component_type_groups self) t = Some g \<Longrightarrow> c \<in> set (sprites g) \<Longrightarrow>
           comp_type c = t"
  shows "group_invariant self"
  unfolding group_invariant_def
proof (intro conjI ballI allI impI)
  show "map comp_oid (components self) = [0..<length (components self)]" by (rule assms(1))
next
  fix c assume "c \<in> set (components self)"
  then show "c \<in> set (main_group self)" by (rule assms(2))
next
  fix c assume "c \<in> set (components self)"
  then show "\<exists>g. map_of (component_type_groups self) (comp_type c) = Some g \<and> c \<in> set (sprites g)"
    by (rule assms(3))
next
  fix t g c assume "map_of (component_type_groups self) t = Some g" "c \<in> set (sprites g)"
  then show "comp_type c = t" by (rule assms(4))
qed

lemma parse_background_fields:
  assumes "parse_background env self bg = Inr self'"
  shows "components self' = components self \<and> main_group self' = main_group self
       \<and> component_type_groups self' = component_type_groups self"
  using assms by (auto simp: parse_background_def split: option.splits if_splits)

lemma group_invariant_parse_background:
  assumes "parse_background env self bg = Inr self'" and "group_invariant self"
  shows "group_invariant self'"
  using assms(2) parse_background_fields[OF assms(1)] by (simp add: group_invariant_def)

lemma components_register_component:
  "components (register_component env self c) = components self @ [c]"
  by (simp add: register_component_def Let_def handle_new_type_group_def split: option.splits)

lemma main_group_register_component:
  "set (main_group (register_component env self c)) = insert c (set (main_group self))"
  by (auto simp: register_component_def Let_def handle_new_type_group_def sprite_list_add_def
      split: option.splits)

lemma sprites_group_add: "set (sprites (group_add c g)) = insert c (set (sprites g))"
  by (auto simp: group_add_def)

lemma sprites_new_group: "sprites (new_group cls) = []"
  by (simp add: new_group_def)

lemma type_groups_register_component_other:
  "t \<noteq> comp_type c \<Longrightarrow>
   map_of (component_type_groups (register_component env self c)) t =
   map_of (component_type_groups self) t"
  by (simp add: register_component_def Let_def handle_new_type_group_def has_str_key_def
      update_conv' split: option.splits)

lemma type_groups_register_component_old:
  "map_of (component_type_groups self) (comp_type c) = Some g \<Longrightarrow>
   map_of (component_type_groups (register_component env self c)) (comp_type c) =
   Some (group_add c g)"
  by (simp add: register_component_def Let_def has_str_key_def update_conv')

lemma type_groups_register_component_new:
  "map_of (component_type_groups self) (comp_type c) = None \<Longrightarrow>
   \<exists>cls. map_of (component_type_groups (register_component env self c)) (comp_type c) =
   Some (group_add c (new_group cls))"
  by (simp add: register_component_def Let_def handle_new_type_group_def has_str_key_def
      update_conv') blast

lemma group_invariant_register_component:
  assumes inv: "group_invariant self" and oid: "comp_oid c = length (components self)"
  shows "group_invariant (register_component env self c)"
proof (rule group_invariantI)
  let ?s = "register_component env self c"
  show "map comp_oid (components ?s) = [0..<length (components ?s)]"
    using group_invariant_numbered[OF inv] oid by (simp add: components_register_component)
next
  let ?s = "register_component env self c"
  fix d assume "d \<in> set (components ?s)"
  then have "d = c \<or> d \<in> set (components self)"
    by (auto simp: components_register_component)
  then show "d \<in> set (main_group ?s)"
    using group_invariant_member[OF inv, of d]
    by (auto simp: main_group_register_component)
next
  let ?s = "register_component env self c"
  fix d assume d: "d \<in> set (components ?s)"
  show "\<exists>g. map_of (component_type_groups ?s) (comp_type d) = Some g \<and> d \<in> set (sprites g)"
  proof (cases "d = c")
    case True
    show ?thesis
    proof (cases "map_of (component_type_groups self) (comp_type c)")
      case None
      from type_groups_register_component_new[OF None, of env] obtain cls where
        "map_of (component_type_groups ?s) (comp_type c) = Some (group_add c (new_group cls))"
        by blast
      with True show ?thesis by (simp add: sprites_group_add)
    next
      case (Some g)
      from type_groups_register_component_old[OF Some, of env] True show ?thesis
        by (simp add: sprites_group_add)
    qed
  next
    case False
    with d have old: "d \<in> set (components self)"
      by (simp add: components_register_component)
    from group_invariant_member[OF inv old] obtain g where
      g: "map_of (component_type_groups self) (comp_type d) = Some g" "d \<in> set (sprites g)"
      by blast
    show ?thesis
    proof (cases "comp_type d = comp_type c")
      case True
      with g have "map_of (component_type_groups self) (comp_type c) = Some g" by simp
      from type_groups_register_component_old[OF this, of env] True g(2) show ?thesis
        by (simp add: sprites_group_add)
    next
      case False
      from type_groups_register_component_other[OF False, of env self] g show ?thesis by simp
    qed
  qed
next
  let ?s = "register_component env self c"
  fix t g d
  assume tg: "map_of (component_type_groups ?s) t = Some g" and d: "d \<in> set (sprites g)"
  show "comp_type d = t"
  proof (cases "t = comp_type c")
    case False
    from type_groups_register_component_other[OF False, of env self] tg
    have "map_of (component_type_groups self) t = Some g" by simp
    from group_invariant_only_type[OF inv this d] show ?thesis .
  next
    case True
    show ?thesis
    proof (cases "map_of (component_type_groups self) (comp_type c)")
      case None
      from type_groups_register_component_new[OF None, of env] obtain cls where
        "map_of (component_type_groups ?s) (comp_type c) = Some (group_add c (new_group cls))"
        by blast
      with tg True have "g = group_add c (new_group cls)" by simp
      with d have "d = c" by (simp add: sprites_group_add sprites_new_group)
      with True show ?thesis by simp
    next
      case (Some g0)
      from type_groups_register_component_old[OF Some, of env] tg True
      have "g = group_add c g0" by simp
      with d have "d = c \<or> d \<in> set (sprites g0)" by (simp add: sprites_group_add)
      then show ?thesis
      proof
        assume "d = c" with True show ?thesis by simp
      next
        assume "d \<in> set (sprites g0)"
        from group_invariant_only_type[OF inv Some this] True show ?thesis by simp
      qed
    qed
  qed
qed

lemma convert_component_oid:
  "convert_component env oid t n kwargs = Inr c \<Longrightarrow> comp_oid c = oid"
  by (auto simp: convert_component_def split: option.splits pyval.splits)

lemma parse_component_Inr:
  assumes "parse_component env gw gh self component = Inr self'"
  shows "\<exists>kwargs t c. resolve_component env self gw gh component = Inr kwargs
           \<and> map_of kwargs ''type'' = Some (PStr t)
           \<and> convert_component env (length (components self)) (lower t) (name self) kwargs = Inr c
           \<and> self' = register_component env self c"
  using assms
  by (simp add: parse_component_def split: sum.splits option.splits pyval.splits if_splits)

lemma group_invariant_parse_component:
  assumes "parse_component env gw gh self component = Inr self'" and "group_invariant self"
  shows "group_invariant self'"
proof -
  from parse_component_Inr[OF assms(1)] obtain kwargs t c where
    c: "convert_component env (length (components self)) (lower t) (name self) kwargs = Inr c"
    and s: "self' = register_component env self c"
    by blast
  from convert_component_oid[OF c] have "comp_oid c = length (components self)" .
  from group_invariant_register_component[OF assms(2) this] s show ?thesis by simp
qed

lemma group_invariant_parse_components_loop:
  "parse_components_loop env gw gh self comps = Inr self' \<Longrightarrow> group_invariant self \<Longrightarrow>
   group_invariant self'"
proof (induction comps arbitrary: self)
  case Nil
  then show ?case by simp
next
  case (Cons component rest)
  from Cons.prems(1) obtain s1 where
    s1: "parse_component env gw gh self component = Inr s1"
    and rest: "parse_components_loop env gw gh s1 rest = Inr self'"
    by (simp split: sum.splits)
  from group_invariant_parse_component[OF s1 Cons.prems(2)] have "group_invariant s1" .
  from Cons.IH[OF rest this] show ?case .
qed

lemma Interface_Inr:
  assumes "Interface env nm background sz comps disp rws cols par styles = Inr self"
  shows "\<exists>s0 gw gh.
           parse_background env (new_interface nm sz disp rws cols par styles) background = Inr s0
         \<and> grid_cell_size (display s0) (size_px s0) (rows s0) (columns s0) = Inr (gw, gh)
         \<and> parse_components_loop env gw gh s0 comps = Inr self"
  using assms
  by (simp add: Interface_def parse_components_def split: sum.splits prod.splits)

lemma group_invariant_Interface:
  assumes "Interface env nm background sz comps disp rws cols par styles = Inr self"
  shows "group_invariant self"
proof -
  from Interface_Inr[OF assms] obtain s0 gw gh where
    bg: "parse_background env (new_interface nm sz disp rws cols par styles) background = Inr s0"
    and loop: "parse_components_loop env gw gh s0 comps = Inr self"
    by blast
  from group_invariant_parse_background[OF bg group_invariant_new_interface]
  have "group_invariant s0" .
  from group_invariant_parse_components_loop[OF loop this] show ?thesis .
qed

text \<open>
  Claim C6. After a construction that returns, every component of \<open>_components\<close> is a
  member of the main group \<open>_group\<close> and of the group stored under its type in
  \<open>_component_type_groups\<close>, and that type is the only key whose group holds the
  component: it is in exactly one type group, never in none and never in two. The
  components of the list are pairwise different objects.
\<close>

theorem constructed_component_groups:
  assumes "Interface env nm background sz comps disp rws cols par styles = Inr self"
    and "c \<in> set (components self)"
  shows "c \<in> set (main_group self)
       \<and> (\<exists>g. map_of (component_type_groups self) (comp_type c) = Some g \<and> c \<in> set (sprites g))
       \<and> {t. \<exists>g. map_of (component_type_groups self) t = Some g \<and> c \<in> set (sprites g)}
           = {comp_type c}
       \<and> distinct (components self)"
proof -
  have inv: "group_invariant self" using assms(1) by (rule group_invariant_Interface)
  from group_invariant_member[OF inv assms(2)]
  have 1: "c \<in> set (main_group self)"
    and 2: "\<exists>g. map_of (component_type_groups self) (comp_type c) = Some g \<and> c \<in> set (sprites g)"
    by simp_all
  have 3: "{t. \<exists>g. map_of (component_type_groups self) t = Some g \<and> c \<in> set (sprites g)}
           = {comp_type c}"
  proof (intro equalityI subsetI)
    fix t assume "t \<in> {t. \<exists>g. map_of (component_type_groups self) t = Some g \<and> c \<in> set (sprites g)}"
    then obtain g where "map_of (component_type_groups self) t = Some g" "c \<in> set (sprites g)"
      by blast
    from group_invariant_only_type[OF inv this] show "t \<in> {comp_type c}" by simp
  next
    fix t assume "t \<in> {comp_type c}"
    with 2 show "t \<in> {t. \<exists>g. map_of (component_type_groups self) t = Some g \<and> c \<in> set (sprites g)}"
      by simp
  qed
  have "distinct (map comp_oid (components self))"
    using group_invariant_numbered[OF inv] by simp
  then have 4: "distinct (components self)" by (simp add: distinct_map)
  from 1 2 3 4 show ?thesis by (intro conjI)
qed

text \<open>The construction of the example interface, run on the model.\<close>

lemmas construction_defs =
  Interface_def parse_background_def load_background_def example_environment_def
  new_interface_def parse_components_def grid_cell_size_def parse_component_def
  resolve_component_def parse_style_classes_def parse_percentage_values_def
  resolve_percentage_def parse_grid_values_def set_id_pos_size_def has_str_key_def
  dict_get_def convert_component_def lower_def lower_char_def register_component_def
  handle_new_type_group_def subtype_key_def group_add_def sprite_list_add_def
  new_group_def ComponentGroup_def Let_def

lemma example_construction:
  "Interface example_environment ''menu'' (PStr ''black'') (800, 600)
     [[(''type'', PStr ''text'')],
      [(''type'', PStr ''button''), (''id'', PStr ''start'')],
      [(''type'', PStr ''text'')]]
     ''default'' None None None None
   = Inr example_menu"
  by (simp add: construction_defs example_menu_def example_text_def example_button_def)

theorem constructed_component_groups_witness:
  "Interface example_environment ''menu'' (PStr ''black'') (800, 600)
     [[(''type'', PStr ''text'')],
      [(''type'', PStr ''button''), (''id'', PStr ''start'')],
      [(''type'', PStr ''text'')]]
     ''default'' None None None None
   = Inr example_menu
   \<and> example_text 2 \<in> set (components example_menu)
   \<and> example_text 2 \<in> set (main_group example_menu)
   \<and> {t. \<exists>g. map_of (component_type_groups example_menu) t = Some g
              \<and> example_text 2 \<in> set (sprites g)} = {''text''}"
proof -
  have m: "example_text 2 \<in> set (components example_menu)"
    by (simp add: example_menu_def)
  have t: "comp_type (example_text 2) = ''text''"
    by (simp add: example_text_def)
  from constructed_component_groups[OF example_construction m]
  have "example_text 2 \<in> set (main_group example_menu)"
    and "{t. \<exists>g. map_of (component_type_groups example_menu) t = Some g
              \<and> example_text 2 \<in> set (sprites g)} = {comp_type (example_text 2)}"
    by blast+
  with example_construction m t show ?thesis by simp
qed

section \<open>Properties of the sentinel id and of \<open>component_mapping\<close>\<close>

lemma resolve_component_id:
  assumes "resolve_component env self gw gh component = Inr kwargs"
    and "parse_style_classes (style_classes self) component = Inr merged"
  shows "map_of kwargs ''id'' =
           (case map_of merged ''id'' of None \<Rightarrow> Some (PStr ''_'') | Some v \<Rightarrow> Some v)"
proof -
  from resolve_component_Inr[OF assms(1)] assms(2) obtain c2 c3 where
    p: "parse_percentage_values (percent_to_float env) (size_px self) merged gw gh = Inr c2" and
    g: "parse_grid_values (display self) c2 gw gh (columns self) = Inr c3" and
    k: "kwargs = set_id_pos_size c3"
    by auto
  have "map_of c3 ''id'' = map_of merged ''id''"
    using parse_percentage_values_other[OF p, of "''id''"]
      parse_grid_values_other[OF g, of "''id''"] by simp
  then show ?thesis
    unfolding k by (simp add: map_of_set_id_pos_size)
qed

lemma convert_component_id:
  "convert_component env oid t n kwargs = Inr c \<Longrightarrow> map_of kwargs ''id'' = Some (PStr (comp_id c))"
  by (auto simp: convert_component_def split: option.splits pyval.splits)

lemma parse_component_adds:
  assumes "parse_component env gw gh self component = Inr self'"
    and "parse_style_classes (style_classes self) component = Inr merged"
  shows "\<exists>c. components self' = components self @ [c]
           \<and> Some (PStr (comp_id c)) =
               (case map_of merged ''id'' of None \<Rightarrow> Some (PStr ''_'') | Some v \<Rightarrow> Some v)"
proof -
  from parse_component_Inr[OF assms(1)] obtain kwargs t c where
    r: "resolve_component env self gw gh component = Inr kwargs" and
    c: "convert_component env (length (components self)) (lower t) (name self) kwargs = Inr c"
    and s: "self' = register_component env self c"
    by blast
  from resolve_component_id[OF r assms(2)] convert_component_id[OF c] s
  show ?thesis by (simp add: components_register_component)
qed

lemma mapping_loop_absent:
  "\<forall>c\<in>set cs. comp_id c \<noteq> k \<Longrightarrow> map_of (mapping_loop cs m) k = map_of m k"
  by (induction cs arbitrary: m) (auto simp: update_conv')

lemma mapping_loop_sentinel: "map_of (mapping_loop cs m) ''_'' = map_of m ''_''"
  by (induction cs arbitrary: m) (auto simp: update_conv')

lemma mapping_loop_Some:
  "map_of (mapping_loop cs m) k = Some c \<Longrightarrow>
   (c \<in> set cs \<and> comp_id c = k \<and> k \<noteq> ''_'') \<or> map_of m k = Some c"
proof (induction cs arbitrary: m)
  case Nil
  then show ?case by simp
next
  case (Cons d ds)
  from Cons.IH[OF Cons.prems[simplified]] show ?case
    by (auto simp: update_conv' split: if_splits)
qed

lemma mapping_loop_defined:
  "k \<in> comp_id ` set cs \<Longrightarrow> k \<noteq> ''_'' \<Longrightarrow> \<exists>d. map_of (mapping_loop cs m) k = Some d"
proof (induction cs arbitrary: m)
  case Nil
  then show ?case by simp
next
  case (Cons d ds)
  show ?case
  proof (cases "k \<in> comp_id ` set ds")
    case True
    from Cons.IH[OF True Cons.prems(2)] show ?thesis by simp
  next
    case False
    with Cons.prems(1) have dk: "comp_id d = k" by auto
    from False have "\<forall>e\<in>set ds. comp_id e \<noteq> k" by force
    from mapping_loop_absent[OF this] dk Cons.prems(2) show ?thesis
      by (simp add: update_conv')
  qed
qed

lemma mapping_loop_distinct:
  "distinct (filter (\<lambda>i. i \<noteq> ''_'') (map comp_id cs)) \<Longrightarrow> c \<in> set cs \<Longrightarrow>
   comp_id c \<noteq> ''_'' \<Longrightarrow> map_of (mapping_loop cs m) (comp_id c) = Some c"
proof (induction cs arbitrary: m)
  case Nil
  then show ?case by simp
next
  case (Cons d ds)
  from Cons.prems(1) have dist: "distinct (filter (\<lambda>i. i \<noteq> ''_'') (map comp_id ds))"
    by (simp split: if_splits)
  show ?case
  proof (cases "c \<in> set ds")
    case True
    from Cons.IH[OF dist True Cons.prems(3)] show ?thesis by simp
  next
    case False
    with Cons.prems(2) have dc: "d = c" by simp
    with Cons.prems(1,3) have notin: "comp_id c \<notin> comp_id ` set ds" by simp
    have "\<forall>e\<in>set ds. comp_id e \<noteq> comp_id c"
    proof (intro ballI notI)
      fix e assume "e \<in> set ds" and "comp_id e = comp_id c"
      then have "comp_id c \<in> comp_id ` set ds" by (metis imageI)
      with notin show False by (rule notE)
    qed
    from mapping_loop_absent[OF this] dc Cons.prems(3) show ?thesis
      by (simp add: update_conv')
  qed
qed

text \<open>
  Claim C8, as amended. A component record that has no \<open>id\<close> key after the style merge
  (none of its own and none supplied by a style class it lists) gives a component with
  the sentinel id \<open>_\<close>, whatever components the interface already holds, so any number of
  them may coexist. No component with the id \<open>_\<close> is in \<open>component_mapping\<close>: the mapping
  has no key \<open>_\<close>, its keys are exactly the ids other than \<open>_\<close> of the components, and
  each key is mapped to a component of the list with that id. When the ids other than
  \<open>_\<close> are pairwise distinct, every component whose id differs from \<open>_\<close> is the value of
  its id: the mapping then contains exactly those components.
\<close>

theorem sentinel_id_mapping:
  "(parse_component env gw gh self0 component = Inr self1
      \<and> parse_style_classes (style_classes self0) component = Inr merged
      \<and> map_of merged ''id'' = None
     \<longrightarrow> (\<exists>c. components self1 = components self0 @ [c] \<and> comp_id c = ''_''))
   \<and> map_of (component_mapping self) ''_'' = None
   \<and> (\<forall>k c. map_of (component_mapping self) k = Some c
         \<longrightarrow> c \<in> set (components self) \<and> comp_id c = k \<and> k \<noteq> ''_'')
   \<and> (\<forall>c\<in>set (components self). comp_id c \<noteq> ''_''
         \<longrightarrow> (\<exists>d. map_of (component_mapping self) (comp_id c) = Some d))
   \<and> (distinct (filter (\<lambda>i. i \<noteq> ''_'') (map comp_id (components self)))
         \<longrightarrow> (\<forall>c\<in>set (components self). comp_id c \<noteq> ''_''
                \<longrightarrow> map_of (component_mapping self) (comp_id c) = Some c))"
proof (intro conjI impI allI ballI)
  assume a: "parse_component env gw gh self0 component = Inr self1
      \<and> parse_style_classes (style_classes self0) component = Inr merged
      \<and> map_of merged ''id'' = None"
  then have 1: "parse_component env gw gh self0 component = Inr self1"
    and 2: "parse_style_classes (style_classes self0) component = Inr merged"
    and 3: "map_of merged ''id'' = None" by simp_all
  from parse_component_adds[OF 1 2] 3
  show "\<exists>c. components self1 = components self0 @ [c] \<and> comp_id c = ''_''" by simp
next
  show "map_of (component_mapping self) ''_'' = None"
    by (simp add: component_mapping_def mapping_loop_sentinel)
next
  fix k c assume "map_of (component_mapping self) k = Some c"
  then have "map_of (mapping_loop (components self) []) k = Some c"
    by (simp add: component_mapping_def)
  from mapping_loop_Some[OF this] have r: "c \<in> set (components self) \<and> comp_id c = k \<and> k \<noteq> ''_''"
    by simp
  from r show "c \<in> set (components self)" by simp
  from r show "comp_id c = k" by simp
  from r show "k \<noteq> ''_''" by simp
next
  fix c assume "c \<in> set (components self)" "comp_id c \<noteq> ''_''"
  then have "comp_id c \<in> comp_id ` set (components self)" "comp_id c \<noteq> ''_''" by simp_all
  then show "\<exists>d. map_of (component_mapping self) (comp_id c) = Some d"
    unfolding component_mapping_def by (rule mapping_loop_defined)
next
  fix c assume "distinct (filter (\<lambda>i. i \<noteq> ''_'') (map comp_id (components self)))"
    "c \<in> set (components self)" "comp_id c \<noteq> ''_''"
  then show "map_of (component_mapping self) (comp_id c) = Some c"
    unfolding component_mapping_def by (rule mapping_loop_distinct)
qed

theorem sentinel_id_mapping_witness:
  "parse_component example_environment None None
      ((new_interface ''menu'' (800, 600) ''default'' None None None None)
         \<lparr>bg_color := (0, 0, 0, 255)\<rparr>)
      [(''type'', PStr ''text'')]
    = Inr (register_component example_environment
            ((new_interface ''menu'' (800, 600) ''default'' None None None None)
               \<lparr>bg_color := (0, 0, 0, 255)\<rparr>)
            (example_text 0))
   \<and> components (register_component example_environment
            ((new_interface ''menu'' (800, 600) ''default'' None None None None)
               \<lparr>bg_color := (0, 0, 0, 255)\<rparr>)
            (example_text 0)) = [example_text 0]
   \<and> comp_id (example_text 0) = ''_''
   \<and> map comp_id (components example_menu) = [''_'', ''start'', ''_'']
   \<and> component_mapping example_menu = [(''start'', example_button)]
   \<and> map_of (component_mapping example_menu) ''_'' = None
   \<and> map_of (component_mapping example_menu) (comp_id example_button) = Some example_button"
proof -
  let ?s0 = "(new_interface ''menu'' (800, 600) ''default'' None None None None)
         \<lparr>bg_color := (0, 0, 0, 255)\<rparr>"
  let ?d = "[(''type'', PStr ''text'')]"
  let ?s1 = "register_component example_environment ?s0 (example_text 0)"
  have p: "parse_component example_environment None None ?s0 ?d = Inr ?s1"
    by (simp add: construction_defs example_text_def)
  have m: "parse_style_classes (style_classes ?s0) ?d = Inr ?d"
    by (simp add: parse_style_classes_def new_interface_def)
  have i: "map_of ?d ''id'' = None" by simp
  have d: "distinct (filter (\<lambda>i. i \<noteq> ''_'') (map comp_id (components example_menu)))"
    by (simp add: example_menu_def example_text_def example_button_def)
  have b: "example_button \<in> set (components example_menu)" "comp_id example_button \<noteq> ''_''"
    by (simp_all add: example_menu_def example_button_def)
  note inst = sentinel_id_mapping[of example_environment None None ?s0 ?d ?s1 ?d example_menu]
  from inst have 2: "map_of (component_mapping example_menu) ''_'' = None" by blast
  from inst d b have 3: "map_of (component_mapping example_menu) (comp_id example_button) = Some example_button"
    by blast
  have 4: "components ?s1 = [example_text 0]"
    by (simp add: components_register_component new_interface_def)
  have 5: "comp_id (example_text 0) = ''_''" by (simp add: example_text_def)
  have 6: "map comp_id (components example_menu) = [''_'', ''start'', ''_'']"
    by (simp add: example_menu_def example_text_def example_button_def)
  have 7: "component_mapping example_menu = [(''start'', example_button)]"
    by (simp add: component_mapping_def example_menu_def example_text_def example_button_def)
  from p 2 3 4 5 6 7 show ?thesis by (intro conjI)
qed

text \<open>
  The claim C8 as stated fails in two ways. A record without an \<open>id\<close> key that lists a
  style class declaring an \<open>id\<close> receives that id from the style merge, which runs
  before the default is set: it is not given the sentinel and it appears in
  \<open>component_mapping\<close>. And of two components with the same id \<open>score\<close> the mapping
  holds only the second, although the id of the first differs from \<open>_\<close> as well.
\<close>

theorem sentinel_id_counterexample:
  "map_of [(''type'', PStr ''text''), (''style'', PStr ''title'')] ''id'' = None
   \<and> (case Interface example_environment ''menu'' (PStr ''black'') (800, 600)
             [[(''type'', PStr ''text''), (''style'', PStr ''title'')]]
             ''default'' None None None
             (Some [(''title'', [(''id'', PStr ''heading''), (''color'', PStr ''red'')])]) of
         Inl e \<Rightarrow> False
       | Inr self \<Rightarrow>
           map comp_id (components self) = [''heading'']
           \<and> map fst (component_mapping self) = [''heading''])
   \<and> (case Interface example_environment ''menu'' (PStr ''black'') (800, 600)
             [[(''type'', PStr ''text''), (''id'', PStr ''score'')],
              [(''type'', PStr ''text''), (''id'', PStr ''score'')]]
             ''default'' None None None None of
         Inl e \<Rightarrow> False
       | Inr self \<Rightarrow>
           map (\<lambda>c. (comp_oid c, comp_id c)) (components self) = [(0, ''score''), (1, ''score'')]
           \<and> map (\<lambda>(k, c). (k, comp_oid c)) (component_mapping self) = [(''score'', 1)])"
  by (simp add: construction_defs component_mapping_def)

end
